theory Spec2Isabelle
  imports Main
begin

section \<open>Shared vocabulary\<close>

text \<open>
  The sources call \<^verbatim>\<open>hashlib.sha1(s.encode('utf-8')).hexdigest()\<close>. The hash is library
  code, so every function that hashes takes it as its first argument: a function from
  the string to its hexadecimal digest. Nothing is assumed about it.
\<close>

type_synonym hexdigest = "string \<Rightarrow> string"

text \<open>
  The exceptions the sources raise. \<open>ClientError\<close> carries what
  \<^verbatim>\<open>e.response.get('Error', {}).get('Code')\<close> reads (\<open>None\<close> when the code is absent);
  \<open>OtherError\<close> is any other exception of the SDK, which no handler of the sources
  catches. \<open>MultipleBucketsError\<close> and \<open>UnknownEnvironmentError\<close> are named by the
  specification only: no source file defines or raises them, and no definition below
  returns them.
\<close>

datatype error =
    StopIteration
  | ImageDoesNotMatchError
  | IndexError
  | KeyError string
  | AssertionError string
  | Exception string
  | MissingTagError string
  | IncorrectSchemaError string
  | ClientError "string option"
  | OtherError string
  | MultipleBucketsError
  | UnknownEnvironmentError

text \<open>What a call of the SDK gives back: a value, a \<open>ClientError\<close> or another exception.\<close>

datatype 'a response = Ok 'a | ClientErr "string option" | OtherErr string

section \<open>ecs\_monitor.py\<close>

definition build_service_name :: "hexdigest \<Rightarrow> string \<Rightarrow> string \<Rightarrow> string" where
  "build_service_name sha1 environment component =
     (let service_name = environment @ ''-'' @ component in
      if length service_name > 32 then
        (let service_name_hash = sha1 service_name in
         take 24 service_name @ ''tf'' @ take 4 service_name_hash)
      else service_name)"

text \<open>
  The parts of the ECS responses that the monitor reads. A deployment is an entry of
  \<^verbatim>\<open>services['services'][i]['deployments']\<close>; a task definition is
  \<^verbatim>\<open>describe_task_definition(...)['taskDefinition']\<close>, and \<open>image_name\<close> is the
  \<^verbatim>\<open>'image'\<close> of a container definition.
\<close>

record deployment =
  status :: string
  taskDefinition :: string
  runningCount :: int
  desiredCount :: int

record service =
  deployments :: "deployment list"

record container_definition =
  image_name :: string

record task_definition =
  containerDefinitions :: "container_definition list"

datatype ecs_call =
    DescribeServices string "string list"
  | DescribeTaskDefinition string

text \<open>
  The ECS client. The monitor polls, so the answer to a call may change from one poll to
  the next: each operation sees the calls issued before it.
\<close>

record ecs_client =
  describe_services :: "ecs_call list \<Rightarrow> string \<Rightarrow> string list \<Rightarrow> service list response"
  describe_task_definition :: "ecs_call list \<Rightarrow> string \<Rightarrow> task_definition response"

datatype event = DoneEvent int int | InProgressEvent int int

text \<open>
  The iterator object: the attributes set by \<^verbatim>\<open>__init__\<close> (\<^verbatim>\<open>self._done\<close> starts
  \<open>False\<close>), the entries of the \<^verbatim>\<open>lru_cache(maxsize=10)\<close> of \<^verbatim>\<open>_get_release_image\<close>
  (most recently used first) and the calls sent to the client so far.
\<close>

record ECSEventIterator =
  self_cluster :: string
  self_environment :: string
  self_component :: string
  self_version :: string
  self_done :: bool
  release_image_cache :: "(string \<times> string) list"
  ecs_calls :: "ecs_call list"

definition init_ECSEventIterator ::
  "string \<Rightarrow> string \<Rightarrow> string \<Rightarrow> string \<Rightarrow> ECSEventIterator" where
  "init_ECSEventIterator cluster environment component version =
     \<lparr>self_cluster = cluster, self_environment = environment,
      self_component = component, self_version = version, self_done = False,
      release_image_cache = [], ecs_calls = []\<rparr>"

text \<open>Python's \<^verbatim>\<open>s.split(sep)\<close> for a separator of one character.\<close>

fun split_on :: "char \<Rightarrow> string \<Rightarrow> string list" where
  "split_on sep [] = [[]]"
| "split_on sep (c # cs) =
     (if c = sep then [] # split_on sep cs
      else (case split_on sep cs of
              [] \<Rightarrow> [[c]]
            | w # ws \<Rightarrow> (c # w) # ws))"

definition service_name :: "hexdigest \<Rightarrow> ECSEventIterator \<Rightarrow> string" where
  "service_name sha1 s = build_service_name sha1 (self_environment s) (self_component s)"

text \<open>
  \<^verbatim>\<open>_get_release_image\<close>: a cached answer is returned without a call; otherwise the task
  definition is described, and the result is cached only when the body returns.
  \<^verbatim>\<open>[0]\<close> and \<^verbatim>\<open>[1]\<close> raise \<open>IndexError\<close> out of range.
\<close>

definition get_release_image ::
  "ecs_client \<Rightarrow> ECSEventIterator \<Rightarrow> string \<Rightarrow> (error + string) \<times> ECSEventIterator" where
  "get_release_image c s task_definition_arn =
     (case map_of (release_image_cache s) task_definition_arn of
        Some cached \<Rightarrow>
          (Inr cached,
           s\<lparr>release_image_cache :=
               (task_definition_arn, cached)
                 # filter (\<lambda>entry. fst entry \<noteq> task_definition_arn) (release_image_cache s)\<rparr>)
      | None \<Rightarrow>
          (let s' = s\<lparr>ecs_calls := ecs_calls s @ [DescribeTaskDefinition task_definition_arn]\<rparr> in
           case describe_task_definition c (ecs_calls s) task_definition_arn of
             ClientErr code \<Rightarrow> (Inl (ClientError code), s')
           | OtherErr msg \<Rightarrow> (Inl (OtherError msg), s')
           | Ok td \<Rightarrow>
               (case containerDefinitions td of
                  [] \<Rightarrow> (Inl IndexError, s')
                | task_def # _ \<Rightarrow>
                    (case split_on CHR ''/'' (image_name task_def) of
                       _ # img # _ \<Rightarrow>
                         (Inr img,
                          s'\<lparr>release_image_cache :=
                               take 10 ((task_definition_arn, img) # release_image_cache s')\<rparr>)
                     | _ \<Rightarrow> (Inl IndexError, s')))))"

definition get_primary_deployment ::
  "hexdigest \<Rightarrow> ecs_client \<Rightarrow> ECSEventIterator \<Rightarrow> (error + deployment) \<times> ECSEventIterator" where
  "get_primary_deployment sha1 c s =
     (let s' = s\<lparr>ecs_calls :=
                  ecs_calls s @ [DescribeServices (self_cluster s) [service_name sha1 s]]\<rparr> in
      case describe_services c (ecs_calls s) (self_cluster s) [service_name sha1 s] of
        ClientErr code \<Rightarrow> (Inl (ClientError code), s')
      | OtherErr msg \<Rightarrow> (Inl (OtherError msg), s')
      | Ok services \<Rightarrow>
          (case services of
             [] \<Rightarrow> (Inl IndexError, s')
           | svc # _ \<Rightarrow>
               (case filter (\<lambda>d. status d = ''PRIMARY'') (deployments svc) of
                  [] \<Rightarrow> (Inl IndexError, s')
                | d # _ \<Rightarrow> (Inr d, s'))))"

text \<open>\<^verbatim>\<open>__next__\<close>.\<close>

definition ECSEventIterator_next ::
  "hexdigest \<Rightarrow> ecs_client \<Rightarrow> ECSEventIterator \<Rightarrow> (error + event) \<times> ECSEventIterator" where
  "ECSEventIterator_next sha1 c s =
     (if self_done s then (Inl StopIteration, s)
      else
        (case get_primary_deployment sha1 c s of
           (Inl e, s1) \<Rightarrow> (Inl e, s1)
         | (Inr primary_deployment, s1) \<Rightarrow>
             (case get_release_image c s1 (taskDefinition primary_deployment) of
                (Inl e, s2) \<Rightarrow> (Inl e, s2)
              | (Inr release_image, s2) \<Rightarrow>
                  if release_image \<noteq> self_component s2 @ '':'' @ self_version s2
                  then (Inl ImageDoesNotMatchError, s2)
                  else
                    (let running = runningCount primary_deployment;
                         desired = desiredCount primary_deployment in
                     if running \<noteq> desired then (Inr (InProgressEvent running desired), s2)
                     else (Inr (DoneEvent running desired), s2\<lparr>self_done := True\<rparr>)))))"

text \<open>
  Python's iteration protocol over the iterator (\<^verbatim>\<open>for event in iterator\<close>): call
  \<^verbatim>\<open>__next__\<close> until it raises. \<open>StopIteration\<close> ends the loop, any other exception
  leaves it. The loop may never end (the service may never settle), so the model takes the
  number of calls it may make; \<open>Unfinished\<close> says that they were used up.
\<close>

datatype ending = Exhausted | Failed error | Unfinished

fun events_of ::
  "hexdigest \<Rightarrow> ecs_client \<Rightarrow> nat \<Rightarrow> ECSEventIterator
     \<Rightarrow> event list \<times> ending \<times> ECSEventIterator" where
  "events_of sha1 c 0 s = ([], Unfinished, s)"
| "events_of sha1 c (Suc n) s =
     (case ECSEventIterator_next sha1 c s of
        (Inl e, s') \<Rightarrow> ([], if e = StopIteration then Exhausted else Failed e, s')
      | (Inr ev, s') \<Rightarrow>
          (case events_of sha1 c n s' of
             (evs, ending, s'') \<Rightarrow> (ev # evs, ending, s'')))"

fun in_progress :: "event \<Rightarrow> bool" where
  "in_progress (InProgressEvent running desired) = True"
| "in_progress (DoneEvent running desired) = False"

text \<open>The call of \<^verbatim>\<open>__next__\<close> that comes after \<open>k\<close> earlier calls.\<close>

fun next_after ::
  "hexdigest \<Rightarrow> ecs_client \<Rightarrow> nat \<Rightarrow> ECSEventIterator \<Rightarrow> (error + event) \<times> ECSEventIterator" where
  "next_after sha1 c 0 s = ECSEventIterator_next sha1 c s"
| "next_after sha1 c (Suc k) s = next_after sha1 c k (snd (ECSEventIterator_next sha1 c s))"

section \<open>terragrunt.py\<close>

definition TAG_NAME :: string where
  "TAG_NAME = ''is-cdflow-tfstate-bucket''"

definition TAG_VALUE :: string where
  "TAG_VALUE = ''true''"

definition NAME_PREFIX :: string where
  "NAME_PREFIX = ''cdflow-tfstate''"

definition MAX_CREATION_ATTEMPTS :: nat where
  "MAX_CREATION_ATTEMPTS = 10"

text \<open>A tag \<^verbatim>\<open>{'Key': k, 'Value': v}\<close> is the pair \<open>(k, v)\<close>.\<close>

type_synonym tag = "string \<times> string"

subsection \<open>LockTableFactory\<close>

definition LockTableFactory_TABLE_NAME :: string where
  "LockTableFactory_TABLE_NAME = ''terraform_locks''"

definition LockTableFactory_TAG_NAME :: string where
  "LockTableFactory_TAG_NAME = ''cdflow_terraform_locks''"

definition LockTableFactory_TAG_VALUE :: string where
  "LockTableFactory_TAG_VALUE = ''true''"

text \<open>
  \<^verbatim>\<open>describe_table(...)['Table']\<close>, as far as it is read. An attribute definition
  \<^verbatim>\<open>{'AttributeName': n, 'AttributeType': t}\<close> is the pair \<open>(n, t)\<close>, an entry
  \<^verbatim>\<open>{'AttributeName': n, 'KeyType': k}\<close> of a key schema the pair \<open>(n, k)\<close>.
\<close>

record table =
  TableName :: string
  TableArn :: string
  AttributeDefinitions :: "(string \<times> string) list"

datatype dynamodb_call =
    DescribeTable string
  | ListTagsOfResource string
  | CreateTable string "(string \<times> string) list" "(string \<times> string) list" int int
  | TagResource string "tag list"
  | WaitTableExists string

text \<open>
  The DynamoDB client. \<open>dynamodb_create_table\<close> takes the table name, the attribute
  definitions, the key schema and the read and write capacity units and answers
  \<^verbatim>\<open>['TableDescription']['TableArn']\<close>; \<open>dynamodb_wait_table_exists\<close> is
  \<^verbatim>\<open>get_waiter('table_exists').wait(TableName=...)\<close>. \<open>get_table_name\<close> sends each request
  at most once, so an answer is a function of the request.
\<close>

record dynamodb_client =
  dynamodb_describe_table :: "string \<Rightarrow> table response"
  dynamodb_list_tags_of_resource :: "string \<Rightarrow> tag list response"
  dynamodb_create_table ::
    "string \<Rightarrow> (string \<times> string) list \<Rightarrow> (string \<times> string) list \<Rightarrow> int \<Rightarrow> int
       \<Rightarrow> string response"
  dynamodb_tag_resource :: "string \<Rightarrow> tag list \<Rightarrow> unit response"
  dynamodb_wait_table_exists :: "string \<Rightarrow> unit response"

text \<open>
  Every method returns its result, or the exception it raises, with the calls it sent to
  the client, in order.
\<close>

definition check_schema :: "table \<Rightarrow> error + bool" where
  "check_schema table_definition =
     (if list_ex (\<lambda>attribute. fst attribute = ''LockID'') (AttributeDefinitions table_definition)
      then Inr True
      else Inl (IncorrectSchemaError ''No attribute LockID in table''))"

definition check_tag :: "dynamodb_client \<Rightarrow> string \<Rightarrow> (error + bool) \<times> dynamodb_call list" where
  "check_tag client table_arn =
     (case dynamodb_list_tags_of_resource client table_arn of
        ClientErr code \<Rightarrow> (Inl (ClientError code), [ListTagsOfResource table_arn])
      | OtherErr msg \<Rightarrow> (Inl (OtherError msg), [ListTagsOfResource table_arn])
      | Ok tags \<Rightarrow>
          (if list_ex (\<lambda>tag. fst tag = LockTableFactory_TAG_NAME
                            \<and> snd tag = LockTableFactory_TAG_VALUE) tags
           then (Inr True, [ListTagsOfResource table_arn])
           else (Inl (MissingTagError
                        (''No tag '' @ LockTableFactory_TAG_NAME @ '' found for '' @ table_arn)),
                 [ListTagsOfResource table_arn])))"

definition try_to_get_table ::
  "dynamodb_client \<Rightarrow> string \<Rightarrow> (error + string) \<times> dynamodb_call list" where
  "try_to_get_table client table_name =
     (case dynamodb_describe_table client table_name of
        ClientErr code \<Rightarrow> (Inl (ClientError code), [DescribeTable table_name])
      | OtherErr msg \<Rightarrow> (Inl (OtherError msg), [DescribeTable table_name])
      | Ok tbl \<Rightarrow>
          (case check_tag client (TableArn tbl) of
             (Inl e, calls) \<Rightarrow> (Inl e, DescribeTable table_name # calls)
           | (Inr _, calls) \<Rightarrow>
               (case check_schema tbl of
                  Inl e \<Rightarrow> (Inl e, DescribeTable table_name # calls)
                | Inr _ \<Rightarrow> (Inr (TableName tbl), DescribeTable table_name # calls))))"

definition create_table ::
  "dynamodb_client \<Rightarrow> string \<Rightarrow> (error + string) \<times> dynamodb_call list" where
  "create_table client table_name =
     (let creation = CreateTable table_name [(''LockID'', ''S'')] [(''LockID'', ''HASH'')] 1 1 in
      case dynamodb_create_table client table_name
             [(''LockID'', ''S'')] [(''LockID'', ''HASH'')] 1 1 of
        ClientErr code \<Rightarrow> (Inl (ClientError code), [creation])
      | OtherErr msg \<Rightarrow> (Inl (OtherError msg), [creation])
      | Ok table_arn \<Rightarrow>
          (let tagging =
                 TagResource table_arn [(LockTableFactory_TAG_NAME, LockTableFactory_TAG_VALUE)] in
           case dynamodb_tag_resource client table_arn
                  [(LockTableFactory_TAG_NAME, LockTableFactory_TAG_VALUE)] of
             ClientErr code \<Rightarrow> (Inl (ClientError code), [creation, tagging])
           | OtherErr msg \<Rightarrow> (Inl (OtherError msg), [creation, tagging])
           | Ok _ \<Rightarrow>
               (case dynamodb_wait_table_exists client table_name of
                  ClientErr code \<Rightarrow>
                    (Inl (ClientError code), [creation, tagging, WaitTableExists table_name])
                | OtherErr msg \<Rightarrow>
                    (Inl (OtherError msg), [creation, tagging, WaitTableExists table_name])
                | Ok _ \<Rightarrow>
                    (Inr table_name, [creation, tagging, WaitTableExists table_name]))))"

text \<open>
  \<^verbatim>\<open>_resource_not_found\<close> reads the code of the \<open>ClientError\<close> it is given; the model
  passes that code.
\<close>

definition resource_not_found :: "string option \<Rightarrow> bool" where
  "resource_not_found code \<longleftrightarrow> code = Some ''ResourceNotFoundException''"

text \<open>
  \<^verbatim>\<open>get_table_name\<close>: the handler takes a \<open>ClientError\<close> raised anywhere in
  \<^verbatim>\<open>_try_to_get_table\<close>; every other exception passes through it.
\<close>

definition get_table_name :: "dynamodb_client \<Rightarrow> (error + string) \<times> dynamodb_call list" where
  "get_table_name client =
     (case try_to_get_table client LockTableFactory_TABLE_NAME of
        (Inr name, calls) \<Rightarrow> (Inr name, calls)
      | (Inl e, calls) \<Rightarrow>
          (case e of
             ClientError code \<Rightarrow>
               if resource_not_found code then
                 (case create_table client LockTableFactory_TABLE_NAME of
                    (r, calls') \<Rightarrow> (r, calls @ calls'))
               else (Inl e, calls)
           | _ \<Rightarrow> (Inl e, calls)))"

subsection \<open>S3BucketFactory\<close>

datatype s3_call =
    ListBuckets
  | GetBucketTagging string
  | GetBucketLocation string
  | CreateBucket string string
  | PutBucketTagging string "tag list"

text \<open>
  The S3 client. \<open>s3_list_buckets\<close> answers the names of \<^verbatim>\<open>['Buckets']\<close>,
  \<open>s3_get_bucket_tagging\<close> the \<^verbatim>\<open>['TagSet']\<close>, \<open>s3_get_bucket_location\<close> the
  \<^verbatim>\<open>['LocationConstraint']\<close> (which may be \<open>None\<close>); \<open>s3_create_bucket\<close> takes the name and
  the \<^verbatim>\<open>LocationConstraint\<close> of the configuration. An answer is a function of the request:
  one resolution reads each bucket once and asks for equal names with equal arguments.
\<close>

record s3_client =
  s3_list_buckets :: "string list response"
  s3_get_bucket_tagging :: "string \<Rightarrow> tag list response"
  s3_get_bucket_location :: "string \<Rightarrow> string option response"
  s3_create_bucket :: "string \<Rightarrow> string \<Rightarrow> unit response"
  s3_put_bucket_tagging :: "string \<Rightarrow> tag list \<Rightarrow> unit response"

record S3BucketFactory =
  boto_s3_client :: s3_client
  aws_region :: string
  account_id :: string

text \<open>
  \<^verbatim>\<open>{tag['Key']: tag['Value'] for tag in tags}\<close>: a later tag with the same key replaces
  an earlier one.
\<close>

definition dict_of_tags :: "tag list \<Rightarrow> (string \<rightharpoonup> string)" where
  "dict_of_tags tags = map_of (rev tags)"

definition get_bucket_tags ::
  "S3BucketFactory \<Rightarrow> string \<Rightarrow> (error + (string \<rightharpoonup> string)) \<times> s3_call list" where
  "get_bucket_tags self bucket_name =
     (case s3_get_bucket_tagging (boto_s3_client self) bucket_name of
        Ok tags \<Rightarrow> (Inr (dict_of_tags tags), [GetBucketTagging bucket_name])
      | ClientErr code \<Rightarrow>
          (if code = Some ''NoSuchTagSet'' then (Inr Map.empty, [GetBucketTagging bucket_name])
           else (Inl (ClientError code), [GetBucketTagging bucket_name]))
      | OtherErr msg \<Rightarrow> (Inl (OtherError msg), [GetBucketTagging bucket_name]))"

definition bucket_has_tag ::
  "S3BucketFactory \<Rightarrow> string \<Rightarrow> (error + bool) \<times> s3_call list" where
  "bucket_has_tag self bucket_name =
     (case get_bucket_tags self bucket_name of
        (Inl e, calls) \<Rightarrow> (Inl e, calls)
      | (Inr tags, calls) \<Rightarrow> (Inr (tags TAG_NAME = Some TAG_VALUE), calls))"

definition bucket_in_current_region ::
  "S3BucketFactory \<Rightarrow> string \<Rightarrow> (error + bool) \<times> s3_call list" where
  "bucket_in_current_region self bucket_name =
     (case s3_get_bucket_location (boto_s3_client self) bucket_name of
        ClientErr code \<Rightarrow> (Inl (ClientError code), [GetBucketLocation bucket_name])
      | OtherErr msg \<Rightarrow> (Inl (OtherError msg), [GetBucketLocation bucket_name])
      | Ok region \<Rightarrow> (Inr (region = Some (aws_region self)), [GetBucketLocation bucket_name]))"

text \<open>
  The comprehension \<^verbatim>\<open>{b for b in buckets if has_tag(b) and in_current_region(b)}\<close>: the
  location is asked only of a bucket that has the tag, and the first exception ends it.
\<close>

fun tagged_buckets ::
  "S3BucketFactory \<Rightarrow> string list \<Rightarrow> (error + string list) \<times> s3_call list" where
  "tagged_buckets self [] = (Inr [], [])"
| "tagged_buckets self (bucket_name # buckets) =
     (case bucket_has_tag self bucket_name of
        (Inl e, calls) \<Rightarrow> (Inl e, calls)
      | (Inr has_tag, calls) \<Rightarrow>
          (case (if has_tag then bucket_in_current_region self bucket_name else (Inr False, [])) of
             (Inl e, calls') \<Rightarrow> (Inl e, calls @ calls')
           | (Inr in_region, calls') \<Rightarrow>
               (case tagged_buckets self buckets of
                  (Inl e, calls'') \<Rightarrow> (Inl e, calls @ calls' @ calls'')
                | (Inr tagged, calls'') \<Rightarrow>
                    (Inr (if in_region then bucket_name # tagged else tagged),
                     calls @ calls' @ calls''))))"

text \<open>Python's \<^verbatim>\<open>str\<close> of a natural number.\<close>

definition digit_char :: "nat \<Rightarrow> char" where
  "digit_char d = ''0123456789'' ! d"

fun str_nat :: "nat \<Rightarrow> string" where
  "str_nat n = (if n < 10 then [digit_char n] else str_nat (n div 10) @ [digit_char (n mod 10)])"

declare str_nat.simps [simp del]

definition generate_bucket_name :: "hexdigest \<Rightarrow> S3BucketFactory \<Rightarrow> nat \<Rightarrow> string" where
  "generate_bucket_name sha1 self attempt =
     (let concatenated = aws_region self @ account_id self @ str_nat attempt in
      NAME_PREFIX @ ''-'' @ take 12 (sha1 concatenated))"

definition attempt_to_create_bucket ::
  "S3BucketFactory \<Rightarrow> string \<Rightarrow> (error + bool) \<times> s3_call list" where
  "attempt_to_create_bucket self bucket_name =
     (case s3_create_bucket (boto_s3_client self) bucket_name (aws_region self) of
        ClientErr code \<Rightarrow>
          (if code \<noteq> Some ''BucketAlreadyExists'' \<and> code \<noteq> Some ''BucketAlreadyOwnedByYou''
           then (Inl (ClientError code), [CreateBucket bucket_name (aws_region self)])
           else (Inr False, [CreateBucket bucket_name (aws_region self)]))
      | OtherErr msg \<Rightarrow> (Inl (OtherError msg), [CreateBucket bucket_name (aws_region self)])
      | Ok _ \<Rightarrow> (Inr True, [CreateBucket bucket_name (aws_region self)]))"

text \<open>The loop of \<^verbatim>\<open>_create_bucket\<close> over the attempts that are left.\<close>

fun create_bucket_attempts ::
  "hexdigest \<Rightarrow> S3BucketFactory \<Rightarrow> nat list \<Rightarrow> (error + string) \<times> s3_call list" where
  "create_bucket_attempts sha1 self [] =
     (Inl (Exception (''could not create bucket after '' @ str_nat MAX_CREATION_ATTEMPTS
                        @ '' attempts'')), [])"
| "create_bucket_attempts sha1 self (attempt # attempts) =
     (let bucket_name = generate_bucket_name sha1 self attempt in
      case attempt_to_create_bucket self bucket_name of
        (Inl e, calls) \<Rightarrow> (Inl e, calls)
      | (Inr created, calls) \<Rightarrow>
          if created then (Inr bucket_name, calls)
          else (case create_bucket_attempts sha1 self attempts of
                  (r, calls') \<Rightarrow> (r, calls @ calls')))"

definition create_bucket :: "hexdigest \<Rightarrow> S3BucketFactory \<Rightarrow> (error + string) \<times> s3_call list" where
  "create_bucket sha1 self = create_bucket_attempts sha1 self [0..<MAX_CREATION_ATTEMPTS]"

definition tag_bucket :: "S3BucketFactory \<Rightarrow> string \<Rightarrow> (error + unit) \<times> s3_call list" where
  "tag_bucket self bucket_name =
     (case s3_put_bucket_tagging (boto_s3_client self) bucket_name [(TAG_NAME, TAG_VALUE)] of
        ClientErr code \<Rightarrow>
          (Inl (ClientError code), [PutBucketTagging bucket_name [(TAG_NAME, TAG_VALUE)]])
      | OtherErr msg \<Rightarrow>
          (Inl (OtherError msg), [PutBucketTagging bucket_name [(TAG_NAME, TAG_VALUE)]])
      | Ok _ \<Rightarrow> (Inr (), [PutBucketTagging bucket_name [(TAG_NAME, TAG_VALUE)]]))"

text \<open>
  \<^verbatim>\<open>get_bucket_name\<close>. The set \<^verbatim>\<open>buckets\<close> is the list of names without repetitions; Python
  fixes no order for iterating a set, and every order of the distinct names is the model's
  order for some listing. The \<^verbatim>\<open>assert\<close> raises \<open>AssertionError\<close> with the stripped message.
\<close>

definition get_bucket_name ::
  "hexdigest \<Rightarrow> S3BucketFactory \<Rightarrow> (error + string) \<times> s3_call list" where
  "get_bucket_name sha1 self =
     (case s3_list_buckets (boto_s3_client self) of
        ClientErr code \<Rightarrow> (Inl (ClientError code), [ListBuckets])
      | OtherErr msg \<Rightarrow> (Inl (OtherError msg), [ListBuckets])
      | Ok names \<Rightarrow>
          (let buckets = remdups names in
           case tagged_buckets self buckets of
             (Inl e, calls) \<Rightarrow> (Inl e, ListBuckets # calls)
           | (Inr tagged, calls) \<Rightarrow>
               if \<not> length tagged \<le> 1 then
                 (Inl (AssertionError
                         (''multiple buckets with '' @ TAG_NAME @ ''='' @ TAG_VALUE
                            @ '' tag found'')),
                  ListBuckets # calls)
               else if length tagged = 1 then (Inr (tagged ! 0), ListBuckets # calls)
               else
                 (case create_bucket sha1 self of
                    (Inl e, calls') \<Rightarrow> (Inl e, ListBuckets # calls @ calls')
                  | (Inr bucket_name, calls') \<Rightarrow>
                      (case tag_bucket self bucket_name of
                         (Inl e, calls'') \<Rightarrow> (Inl e, ListBuckets # calls @ calls' @ calls'')
                       | (Inr _, calls'') \<Rightarrow>
                           (Inr bucket_name, ListBuckets # calls @ calls' @ calls'')))))"

text \<open>
  What an account looks like through the client: a bucket qualifies when its tag set
  gives the sentinel tag and its location constraint is the caller's region; it is
  readable when the calls that read it raise nothing (a missing tag set is not an error).
\<close>

definition qualifies :: "S3BucketFactory \<Rightarrow> string \<Rightarrow> bool" where
  "qualifies self bucket_name =
     (case s3_get_bucket_tagging (boto_s3_client self) bucket_name of
        Ok tags \<Rightarrow>
          dict_of_tags tags TAG_NAME = Some TAG_VALUE
          \<and> s3_get_bucket_location (boto_s3_client self) bucket_name = Ok (Some (aws_region self))
      | _ \<Rightarrow> False)"

definition readable :: "S3BucketFactory \<Rightarrow> string \<Rightarrow> bool" where
  "readable self bucket_name =
     (case s3_get_bucket_tagging (boto_s3_client self) bucket_name of
        Ok tags \<Rightarrow>
          (if dict_of_tags tags TAG_NAME = Some TAG_VALUE
           then (case s3_get_bucket_location (boto_s3_client self) bucket_name of
                   Ok _ \<Rightarrow> True | _ \<Rightarrow> False)
           else True)
      | ClientErr code \<Rightarrow> code = Some ''NoSuchTagSet''
      | OtherErr _ \<Rightarrow> False)"

fun is_write :: "s3_call \<Rightarrow> bool" where
  "is_write (CreateBucket bucket_name region) = True"
| "is_write (PutBucketTagging bucket_name tags) = True"
| "is_write call = False"

text \<open>The exceptions that come from the client.\<close>

fun sdk_error :: "error \<Rightarrow> bool" where
  "sdk_error (ClientError code) = True"
| "sdk_error (OtherError msg) = True"
| "sdk_error e = False"

text \<open>
  Attempt \<open>n\<close> finds its name taken when the creation is refused with one of the two
  codes that \<^verbatim>\<open>_attempt_to_create_bucket\<close> swallows; \<open>creation_call\<close> is the call of attempt \<open>n\<close>.
\<close>

definition name_taken :: "hexdigest \<Rightarrow> S3BucketFactory \<Rightarrow> nat \<Rightarrow> bool" where
  "name_taken sha1 self attempt =
     (s3_create_bucket (boto_s3_client self) (generate_bucket_name sha1 self attempt)
        (aws_region self) = ClientErr (Some ''BucketAlreadyExists'')
      \<or> s3_create_bucket (boto_s3_client self) (generate_bucket_name sha1 self attempt)
        (aws_region self) = ClientErr (Some ''BucketAlreadyOwnedByYou''))"

definition creation_call :: "hexdigest \<Rightarrow> S3BucketFactory \<Rightarrow> nat \<Rightarrow> s3_call" where
  "creation_call sha1 self attempt =
     CreateBucket (generate_bucket_name sha1 self attempt) (aws_region self)"

section \<open>account.py\<close>

record Account =
  alias' :: string
  id' :: string
  role :: string

definition DEFAULT_ENV_KEY :: string where
  "DEFAULT_ENV_KEY = ''*''"

text \<open>
  The environment mapping is a \<^verbatim>\<open>dict\<close>, or a \<^verbatim>\<open>defaultdict\<close> whose factory returns the
  default account: \<open>default_factory\<close> is \<open>None\<close> for the plain \<^verbatim>\<open>dict\<close>.
\<close>

record env_mapping =
  default_factory :: "Account option"
  entries :: "string \<rightharpoonup> Account"

record AccountScheme =
  accounts :: "Account set"
  release_account :: Account
  release_bucket :: string
  lambda_bucket :: string
  default_region :: string
  environment_mapping :: env_mapping

text \<open>
  \<^verbatim>\<open>raw_scheme['environments']\<close> is given by its items, in order, and read as the
  dictionary \<open>map_of\<close> of them; \<^verbatim>\<open>accounts\<close> maps an alias to its account. The
  comprehension \<^verbatim>\<open>{env: accounts[raw_scheme['environments'][env]] for env in ...}\<close> raises
  \<open>KeyError\<close> at the first environment whose alias is no key of \<^verbatim>\<open>accounts\<close>.
\<close>

fun environment_items ::
  "(string \<times> string) list \<Rightarrow> (string \<rightharpoonup> Account) \<Rightarrow> string list
     \<Rightarrow> error + (string \<rightharpoonup> Account)" where
  "environment_items environments account_of [] = Inr Map.empty"
| "environment_items environments account_of (env # envs) =
     (case map_of environments env of
        None \<Rightarrow> Inl (KeyError env)
      | Some account_alias \<Rightarrow>
          (case account_of account_alias of
             None \<Rightarrow> Inl (KeyError account_alias)
           | Some account \<Rightarrow>
               (case environment_items environments account_of envs of
                  Inl e \<Rightarrow> Inl e
                | Inr mapping \<Rightarrow> Inr (mapping(env \<mapsto> account)))))"

text \<open>
  \<^verbatim>\<open>_get_env_mapping\<close>. \<^verbatim>\<open>if default_env_alias:\<close> is false for \<open>None\<close> and for the empty
  string.
\<close>

definition get_env_mapping ::
  "(string \<times> string) list \<Rightarrow> (string \<rightharpoonup> Account) \<Rightarrow> error + env_mapping" where
  "get_env_mapping environments account_of =
     (let default_env_alias = map_of environments DEFAULT_ENV_KEY in
      case environment_items environments account_of (map fst environments) of
        Inl e \<Rightarrow> Inl e
      | Inr mapping \<Rightarrow>
          (case default_env_alias of
             None \<Rightarrow> Inr \<lparr>default_factory = None, entries = mapping\<rparr>
           | Some account_alias \<Rightarrow>
               if account_alias = [] then Inr \<lparr>default_factory = None, entries = mapping\<rparr>
               else
                 (case account_of account_alias of
                    None \<Rightarrow> Inl (KeyError account_alias)
                  | Some default_env \<Rightarrow>
                      Inr \<lparr>default_factory = Some default_env, entries = mapping\<rparr>)))"

text \<open>
  \<^verbatim>\<open>account_for_environment\<close> is \<^verbatim>\<open>self._environment_mapping[environment]\<close>: a missing
  key of a \<^verbatim>\<open>dict\<close> raises \<open>KeyError\<close>; a \<^verbatim>\<open>defaultdict\<close> stores the default under the
  key and returns it.
\<close>

definition account_for_environment ::
  "AccountScheme \<Rightarrow> string \<Rightarrow> (error + Account) \<times> AccountScheme" where
  "account_for_environment self environment =
     (case entries (environment_mapping self) environment of
        Some account \<Rightarrow> (Inr account, self)
      | None \<Rightarrow>
          (case default_factory (environment_mapping self) of
             None \<Rightarrow> (Inl (KeyError environment), self)
           | Some default_env \<Rightarrow>
               (Inr default_env,
                self\<lparr>environment_mapping :=
                       (environment_mapping self)
                         \<lparr>entries := (entries (environment_mapping self))
                                        (environment \<mapsto> default_env)\<rparr>\<rparr>)))"

section \<open>State migration\<close>

text \<open>
  The object store as \<open>migrate_state\<close> sees it: the objects by bucket and key, each with
  its body and the time of its last write; the time of the next write; and the keys
  written so far, in order.
\<close>

record s3_object =
  body :: string
  last_modified :: nat

record object_store =
  objects :: "string \<times> string \<rightharpoonup> s3_object"
  clock :: nat
  puts :: "(string \<times> string) list"

definition put_object :: "object_store \<Rightarrow> string \<Rightarrow> string \<Rightarrow> string \<Rightarrow> object_store" where
  "put_object store bucket key content =
     store\<lparr>objects := (objects store)((bucket, key) \<mapsto> \<lparr>body = content, last_modified = clock store\<rparr>),
           puts := puts store @ [(bucket, key)]\<rparr>"

definition legacy_key :: "string \<Rightarrow> string \<Rightarrow> string" where
  "legacy_key environment component = environment @ ''/'' @ component @ ''/terraform.tfstate''"

definition state_key :: "string \<Rightarrow> string \<Rightarrow> string \<Rightarrow> string" where
  "state_key team component environment =
     team @ ''/'' @ component @ ''/'' @ environment @ ''/terraform.tfstate''"

definition marker_key :: "string \<Rightarrow> string \<Rightarrow> string \<Rightarrow> string" where
  "marker_key team component environment =
     team @ ''/'' @ component @ ''/'' @ environment @ ''/MIGRATED''"

text \<open>
  Modelled from the spec: \<^verbatim>\<open>migrate_state\<close> of \<^verbatim>\<open>cdflow_commands/state.py\<close>, which is not
  among the sources (only its tests in \<^verbatim>\<open>test/test_state.py\<close> are). Per environment of the
  account scheme: if the marker \<^verbatim>\<open><team>/<component>/<environment>/MIGRATED\<close> is at the
  destination, skip; else read the legacy object
  \<^verbatim>\<open><environment>/<component>/terraform.tfstate\<close> and skip if it is absent; else copy its
  bytes to \<^verbatim>\<open><team>/<component>/<environment>/terraform.tfstate\<close>, then write the marker
  with content \<open>1\<close>. The legacy bucket, the new bucket and the environments are what the
  two schemes resolve to.
\<close>

definition migrate_environment ::
  "string \<Rightarrow> string \<Rightarrow> string \<Rightarrow> string \<Rightarrow> object_store \<Rightarrow> string \<Rightarrow> object_store" where
  "migrate_environment old_bucket new_bucket team component store environment =
     (if objects store (new_bucket, marker_key team component environment) \<noteq> None then store
      else
        (case objects store (old_bucket, legacy_key environment component) of
           None \<Rightarrow> store
         | Some legacy \<Rightarrow>
             put_object
               (put_object store new_bucket (state_key team component environment) (body legacy))
               new_bucket (marker_key team component environment) ''1''))"

text \<open>
  Modelled from the spec: the loop of \<^verbatim>\<open>migrate_state\<close> over the environments, which
  is not among the sources either.
\<close>

fun migrate_state ::
  "string \<Rightarrow> string \<Rightarrow> string \<Rightarrow> string \<Rightarrow> string list \<Rightarrow> object_store \<Rightarrow> object_store" where
  "migrate_state old_bucket new_bucket team component [] store = store"
| "migrate_state old_bucket new_bucket team component (environment # environments) store =
     migrate_state old_bucket new_bucket team component environments
       (migrate_environment old_bucket new_bucket team component store environment)"

section \<open>Example inputs\<close>

text \<open>
  Concrete clients and objects at which the theorems below are instantiated. The example
  service \<open>live-svc\<close> has a superseded deployment and a \<open>PRIMARY\<close> one;
  \<open>fixture_settling_client\<close> reports one more running task at each poll until three run.
\<close>

definition fixture_deployments :: "int \<Rightarrow> int \<Rightarrow> service" where
  "fixture_deployments running desired =
     \<lparr>deployments =
        [\<lparr>status = ''ACTIVE'', taskDefinition = ''arn:task-definition/svc:6'',
          runningCount = 0, desiredCount = 0\<rparr>,
         \<lparr>status = ''PRIMARY'', taskDefinition = ''arn:task-definition/svc:7'',
          runningCount = running, desiredCount = desired\<rparr>]\<rparr>"

definition fixture_ecs_client :: "int \<Rightarrow> int \<Rightarrow> string \<Rightarrow> ecs_client" where
  "fixture_ecs_client running desired img =
     \<lparr>describe_services = (\<lambda>calls cluster names. Ok [fixture_deployments running desired]),
      describe_task_definition =
        (\<lambda>calls arn. Ok \<lparr>containerDefinitions = [\<lparr>image_name = img\<rparr>]\<rparr>)\<rparr>"

definition fixture_settling_client :: ecs_client where
  "fixture_settling_client =
     \<lparr>describe_services =
        (\<lambda>calls cluster names.
           Ok [fixture_deployments (min 3 (1 + int (length (filter (\<lambda>call. case call of DescribeServices _ _ \<Rightarrow> True | _ \<Rightarrow> False) calls)))) 3]),
      describe_task_definition =
        (\<lambda>calls arn. Ok \<lparr>containerDefinitions = [\<lparr>image_name = ''registry.example.com/svc:1.2.3''\<rparr>]\<rparr>)\<rparr>"

definition fixture_iterator :: ECSEventIterator where
  "fixture_iterator = init_ECSEventIterator ''cluster'' ''live'' ''svc'' ''1.2.3''"

definition fixture_polled :: "nat \<Rightarrow> ECSEventIterator" where
  "fixture_polled k = snd (next_after (\<lambda>_. []) fixture_settling_client k fixture_iterator)"

text \<open>
  A lock table and a DynamoDB client that describes it as given; an S3 client whose
  buckets all carry the sentinel tag and report one location, and that refuses to create
  the names of a given set. \<open>fixture_sha1\<close> tabulates the SHA-1 digests of the strings
  hashed at these inputs.
\<close>

definition fixture_table :: "string \<Rightarrow> table" where
  "fixture_table attribute_name =
     \<lparr>TableName = ''terraform_locks'',
      TableArn = ''arn:aws:dynamodb:eu-west-12:123456789:table/terraform_locks'',
      AttributeDefinitions = [(attribute_name, ''S'')]\<rparr>"

definition fixture_dynamodb_client :: "table response \<Rightarrow> tag list \<Rightarrow> dynamodb_client" where
  "fixture_dynamodb_client description tags =
     \<lparr>dynamodb_describe_table = (\<lambda>table_name. description),
      dynamodb_list_tags_of_resource = (\<lambda>arn. Ok tags),
      dynamodb_create_table = (\<lambda>table_name attributes key_schema read write. Ok ''arn:new-table''),
      dynamodb_tag_resource = (\<lambda>arn tags. Ok ()),
      dynamodb_wait_table_exists = (\<lambda>table_name. Ok ())\<rparr>"

definition fixture_sha1 :: hexdigest where
  "fixture_sha1 s =
     (case map_of
        [(''eu-west-11234567890120'', ''d33047a9f075351b446cb972e663dbf5b7d716f8''),
         (''eu-west-11234567890121'', ''b400dc5cf3da5d76b7becf77b898e2fb12d4bbbd''),
         (''eu-west-11234567890122'', ''ab8edb4d98cdf1d98c5ed5fe5836ef3c610890c3''),
         (''eu-west-11234567890123'', ''29a24d9dda281505b7f5974b8c27ceada06c66e2''),
         (''eu-west-11234567890124'', ''2cba727bffe41e3a54bc5c183a7d4d863b959bdc''),
         (''eu-west-11234567890125'', ''850f21003bcf66a5f0a7d2ea807fc66fd14323c9''),
         (''eu-west-11234567890126'', ''9a1eb26feb8cfbb6cceb6cdd19c8bf5c93fb6697''),
         (''eu-west-11234567890127'', ''789ad36acd3d7e4713f87da144e591591c1a3094''),
         (''eu-west-11234567890128'', ''707cbb25967408b0648abd48aedfd7f02b3b5ab2''),
         (''eu-west-11234567890129'', ''9d897f67355e0c6dd9806f3635e64905332cc192''),
         (''us-east-11234567890120'', ''2e0b1f3804e422f1a0694bbc68aac5500a7324c9'')] s of
        Some digest \<Rightarrow> digest
      | None \<Rightarrow> ''da39a3ee5e6b4b0d3255bfef95601890afd80709'')"

definition fixture_s3_client ::
  "string list \<Rightarrow> string option \<Rightarrow> (string \<Rightarrow> bool) \<Rightarrow> s3_client" where
  "fixture_s3_client names location taken =
     \<lparr>s3_list_buckets = Ok names,
      s3_get_bucket_tagging = (\<lambda>bucket_name. Ok [(TAG_NAME, TAG_VALUE)]),
      s3_get_bucket_location = (\<lambda>bucket_name. Ok location),
      s3_create_bucket =
        (\<lambda>bucket_name region.
           if taken bucket_name then ClientErr (Some ''BucketAlreadyExists'') else Ok ()),
      s3_put_bucket_tagging = (\<lambda>bucket_name tags. Ok ())\<rparr>"

definition fixture_factory ::
  "string \<Rightarrow> string list \<Rightarrow> string option \<Rightarrow> (string \<Rightarrow> bool) \<Rightarrow> S3BucketFactory" where
  "fixture_factory region names location taken =
     \<lparr>boto_s3_client = fixture_s3_client names location taken,
      aws_region = region, account_id = ''123456789012''\<rparr>"

definition fixture_first_two_taken :: "string \<Rightarrow> bool" where
  "fixture_first_two_taken bucket_name \<longleftrightarrow>
     bucket_name = ''cdflow-tfstate-d33047a9f075'' \<or> bucket_name = ''cdflow-tfstate-b400dc5cf3da''"

text \<open>
  Two accounts and a scheme around a given environment mapping; an object store that
  holds the legacy state of \<open>qa\<close> in the bucket \<open>cdflow-tfstate\<close>, and the migration of the
  component \<open>svc\<close> of \<open>team\<close> over the environments \<open>ci\<close> and \<open>qa\<close>.
\<close>

definition fixture_prod :: Account where
  "fixture_prod = \<lparr>alias' = ''prod'', id' = ''222222222222'', role = ''admin''\<rparr>"

definition fixture_dev :: Account where
  "fixture_dev = \<lparr>alias' = ''dev'', id' = ''111111111111'', role = ''admin''\<rparr>"

definition fixture_accounts :: "string \<rightharpoonup> Account" where
  "fixture_accounts = map_of [(''dev'', fixture_dev), (''prod'', fixture_prod)]"

definition fixture_scheme :: "env_mapping \<Rightarrow> AccountScheme" where
  "fixture_scheme mapping =
     \<lparr>accounts = ran fixture_accounts,
      release_account = fixture_dev,
      release_bucket = ''releases'', lambda_bucket = '''', default_region = ''eu-west-1'',
      environment_mapping = mapping\<rparr>"

definition fixture_store :: object_store where
  "fixture_store =
     \<lparr>objects = [(''cdflow-tfstate'', ''qa/svc/terraform.tfstate'')
                   \<mapsto> \<lparr>body = ''qa state'', last_modified = 1\<rparr>],
      clock = 5, puts = []\<rparr>"

definition fixture_migrate :: "object_store \<Rightarrow> object_store" where
  "fixture_migrate store =
     migrate_state ''cdflow-tfstate'' ''backend-s3-bucket'' ''team'' ''svc'' [''ci'', ''qa''] store"

text \<open>A store in which the state of \<open>qa\<close> and its marker are at the destination already.\<close>

definition fixture_premarked :: object_store where
  "fixture_premarked =
     \<lparr>objects = [(''cdflow-tfstate'', ''qa/svc/terraform.tfstate'')
                   \<mapsto> \<lparr>body = ''qa state'', last_modified = 1\<rparr>,
                 (''backend-s3-bucket'', ''team/svc/qa/terraform.tfstate'')
                   \<mapsto> \<lparr>body = ''qa state'', last_modified = 1\<rparr>,
                 (''backend-s3-bucket'', ''team/svc/qa/MIGRATED'')
                   \<mapsto> \<lparr>body = ''1'', last_modified = 1\<rparr>],
      clock = 5, puts = []\<rparr>"

section \<open>Properties of ecs\_monitor.py\<close>

lemmas fixture_simps =
  fixture_iterator_def init_ECSEventIterator_def fixture_ecs_client_def fixture_deployments_def
  fixture_settling_client_def service_name_def build_service_name_def

text \<open>
  C7. \<open>build_service_name\<close> is a function of the environment and the component (and of
  the hash). When the joined name \<open>environment-component\<close> has more than 32 characters
  the result is the first 24 characters of that name, then \<open>tf\<close>, then the first 4
  characters of the digest of the whole joined name, and it has at most 32 characters.
\<close>

theorem build_service_name_collapsed:
  assumes "length (environment @ ''-'' @ component) > 32"
  shows "build_service_name sha1 environment component =
           take 24 (environment @ ''-'' @ component) @ ''tf''
             @ take 4 (sha1 (environment @ ''-'' @ component))
         \<and> length (build_service_name sha1 environment component) \<le> 32"
  using assms by (simp add: build_service_name_def Let_def)

theorem build_service_name_collapsed_witness:
  "length (''production'' @ ''-'' @ ''a-very-long-component-name'') > 32
   \<and> build_service_name (\<lambda>_. ''a8503985bd44ff26d3d02f01b38b2b1b44e43b92'')
        ''production'' ''a-very-long-component-name''
       = ''production-a-very-long-ctfa850''
   \<and> length (build_service_name (\<lambda>_. ''a8503985bd44ff26d3d02f01b38b2b1b44e43b92'')
        ''production'' ''a-very-long-component-name'') \<le> 32"
  using build_service_name_collapsed
    [of "''production''" "''a-very-long-component-name''"
        "\<lambda>_. ''a8503985bd44ff26d3d02f01b38b2b1b44e43b92''"]
  by simp

subsection \<open>The iterator\<close>

text \<open>
  Neither helper of \<^verbatim>\<open>__next__\<close> touches the latch, the component or the version, and
  neither raises \<open>StopIteration\<close>.
\<close>

lemma get_primary_deployment_frame:
  assumes "get_primary_deployment sha1 c s = (r, s')"
  shows "self_done s' = self_done s \<and> r \<noteq> Inl StopIteration
         \<and> self_component s' = self_component s \<and> self_version s' = self_version s"
  using assms
  by (auto simp add: get_primary_deployment_def Let_def split: response.splits list.splits)

lemma get_release_image_frame:
  assumes "get_release_image c s arn = (r, s')"
  shows "self_done s' = self_done s \<and> r \<noteq> Inl StopIteration
         \<and> self_component s' = self_component s \<and> self_version s' = self_version s"
  using assms
  by (auto simp add: get_release_image_def Let_def split: option.splits response.splits list.splits)

lemma next_when_done:
  "self_done s \<Longrightarrow> ECSEventIterator_next sha1 c s = (Inl StopIteration, s)"
  by (simp add: ECSEventIterator_next_def)

lemma next_stop_iff:
  "fst (ECSEventIterator_next sha1 c s) = Inl StopIteration \<longleftrightarrow> self_done s"
  by (auto simp add: ECSEventIterator_next_def Let_def split: prod.splits sum.splits if_splits
       dest: get_primary_deployment_frame get_release_image_frame)

lemma next_done_event:
  "ECSEventIterator_next sha1 c s = (Inr (DoneEvent r d), s') \<Longrightarrow> self_done s'"
  by (auto simp add: ECSEventIterator_next_def Let_def split: prod.splits sum.splits if_splits)

lemma next_in_progress_event:
  "ECSEventIterator_next sha1 c s = (Inr (InProgressEvent r d), s') \<Longrightarrow> \<not> self_done s'"
  by (auto simp add: ECSEventIterator_next_def Let_def split: prod.splits sum.splits if_splits
       dest!: get_primary_deployment_frame get_release_image_frame)

lemma next_event_not_done:
  "ECSEventIterator_next sha1 c s = (Inr ev, s') \<Longrightarrow> \<not> self_done s"
  by (auto simp add: ECSEventIterator_next_def)

lemma events_of_done:
  "self_done s \<Longrightarrow> events_of sha1 c n s = ([], if n = 0 then Unfinished else Exhausted, s)"
  by (cases n) (simp_all add: next_when_done)

lemma events_of_shape:
  assumes "events_of sha1 c n s = (evs, ending, s')"
  shows "\<exists>ips tl. evs = ips @ tl \<and> list_all in_progress ips
           \<and> (tl = [] \<or> (\<exists>r d. tl = [DoneEvent r d] \<and> self_done s'))
           \<and> (ending = Exhausted \<and> \<not> self_done s \<longrightarrow> tl \<noteq> [])
           \<and> (ending \<noteq> Unfinished \<or> length evs = n \<or> tl \<noteq> [])
           \<and> (\<forall>e. ending = Failed e \<longrightarrow> tl = [] \<and> e \<noteq> StopIteration)
           \<and> (ending = Exhausted \<longrightarrow> self_done s')"
  using assms
proof (induction n arbitrary: s evs ending s')
  case 0
  then show ?case by simp
next
  case (Suc n)
  obtain r s1 where nx: "ECSEventIterator_next sha1 c s = (r, s1)"
    by (cases "ECSEventIterator_next sha1 c s")
  show ?case
  proof (cases r)
    case (Inl e)
    show ?thesis
    proof (cases "e = StopIteration")
      case True
      with Inl nx have "self_done s" using next_stop_iff [of sha1 c s] by simp
      then have "events_of sha1 c (Suc n) s = ([], Exhausted, s)"
        by (simp add: next_when_done)
      with Suc.prems \<open>self_done s\<close> show ?thesis by simp
    next
      case False
      with Inl nx Suc.prems have "evs = []" "ending = Failed e"
        by simp_all
      with False show ?thesis by simp
    qed
  next
    case (Inr ev)
    obtain evs1 end1 s2 where rest: "events_of sha1 c n s1 = (evs1, end1, s2)"
      by (cases "events_of sha1 c n s1") auto
    with Inr nx Suc.prems have eq: "evs = ev # evs1" "ending = end1" "s' = s2"
      by simp_all
    show ?thesis
    proof (cases ev)
      case (DoneEvent r d)
      with Inr nx have d1: "self_done s1" by (simp add: next_done_event)
      with rest have "evs1 = []" "s2 = s1" "end1 = (if n = 0 then Unfinished else Exhausted)"
        by (simp_all add: events_of_done)
      with eq DoneEvent d1 show ?thesis
        by (intro exI [of _ "[]"] exI [of _ "[DoneEvent r d]"]) auto
    next
      case (InProgressEvent r d)
      with Inr nx have nd: "\<not> self_done s1" by (simp add: next_in_progress_event)
      from Suc.IH [OF rest] obtain ips tl where
        ih: "evs1 = ips @ tl" "list_all in_progress ips"
            "tl = [] \<or> (\<exists>r d. tl = [DoneEvent r d] \<and> self_done s2)"
            "end1 = Exhausted \<and> \<not> self_done s1 \<longrightarrow> tl \<noteq> []"
            "end1 \<noteq> Unfinished \<or> length evs1 = n \<or> tl \<noteq> []"
            "\<forall>e. end1 = Failed e \<longrightarrow> tl = [] \<and> e \<noteq> StopIteration"
            "end1 = Exhausted \<longrightarrow> self_done s2"
        by blast
      with eq InProgressEvent nd show ?thesis
        by (intro exI [of _ "InProgressEvent r d # ips"] exI [of _ tl]) auto
    qed
  qed
qed


lemma next_after_done:
  "self_done t \<Longrightarrow> next_after sha1 c k t = (Inl StopIteration, t)"
  by (induction k) (simp_all add: next_when_done)

text \<open>
  C5, as the code has it. A poll before the latch is set, for which the service is
  described and has a \<open>PRIMARY\<close> deployment. The release image that \<^verbatim>\<open>__next__\<close> compares
  with \<open>component:version\<close> is not the container image itself: it is the cached answer
  for the deployment's task definition, or else \<^verbatim>\<open>image.split('/')[1]\<close> of the first
  container of the task definition that is then described, the part between the first
  and the second \<open>/\<close>. When the task definition has no container, or the container image
  has no \<open>/\<close>, the call raises \<open>IndexError\<close>. Otherwise, if the release image differs from
  \<open>component:version\<close> the call raises \<open>ImageDoesNotMatchError\<close>, whatever the counts; else
  it returns \<open>InProgressEvent\<close> when the running and desired counts differ and \<open>DoneEvent\<close>
  when they are equal.
\<close>

theorem next_event_by_release_image:
  assumes nd: "\<not> self_done s"
    and ds: "describe_services c (ecs_calls s) (self_cluster s) [service_name sha1 s]
               = Ok (svc # svcs)"
    and prim: "filter (\<lambda>d. status d = ''PRIMARY'') (deployments svc) = primary # others"
  shows "(map_of (release_image_cache s) (taskDefinition primary) = Some cached
          \<longrightarrow> fst (ECSEventIterator_next sha1 c s) =
               (if cached \<noteq> self_component s @ '':'' @ self_version s
                  then Inl ImageDoesNotMatchError
                else if runningCount primary \<noteq> desiredCount primary
                  then Inr (InProgressEvent (runningCount primary) (desiredCount primary))
                else Inr (DoneEvent (runningCount primary) (desiredCount primary))))
       \<and> (map_of (release_image_cache s) (taskDefinition primary) = None
            \<and> describe_task_definition c
                 (ecs_calls s @ [DescribeServices (self_cluster s) [service_name sha1 s]])
                 (taskDefinition primary) = Ok td
          \<longrightarrow> fst (ECSEventIterator_next sha1 c s) =
               (case containerDefinitions td of
                  [] \<Rightarrow> Inl IndexError
                | cd # cds \<Rightarrow>
                    (case split_on CHR ''/'' (image_name cd) of
                       registry # img # rest \<Rightarrow>
                         (if img \<noteq> self_component s @ '':'' @ self_version s
                            then Inl ImageDoesNotMatchError
                          else if runningCount primary \<noteq> desiredCount primary
                            then Inr (InProgressEvent (runningCount primary)
                                        (desiredCount primary))
                          else Inr (DoneEvent (runningCount primary) (desiredCount primary)))
                     | _ \<Rightarrow> Inl IndexError)))"
proof -
  let ?s1 = "s\<lparr>ecs_calls := ecs_calls s @ [DescribeServices (self_cluster s) [service_name sha1 s]]\<rparr>"
  have pd: "get_primary_deployment sha1 c s = (Inr primary, ?s1)"
    using ds prim by (simp add: get_primary_deployment_def Let_def)
  obtain r s2 where ri: "get_release_image c ?s1 (taskDefinition primary) = (r, s2)"
    by (cases "get_release_image c ?s1 (taskDefinition primary)")
  then have fr: "self_component s2 = self_component s" "self_version s2 = self_version s"
    by (auto dest: get_release_image_frame)
  have nx: "fst (ECSEventIterator_next sha1 c s) =
              (case r of
                 Inl e \<Rightarrow> Inl e
               | Inr img \<Rightarrow>
                   (if img \<noteq> self_component s @ '':'' @ self_version s
                      then Inl ImageDoesNotMatchError
                    else if runningCount primary \<noteq> desiredCount primary
                      then Inr (InProgressEvent (runningCount primary) (desiredCount primary))
                    else Inr (DoneEvent (runningCount primary) (desiredCount primary))))"
    using nd pd ri fr by (simp add: ECSEventIterator_next_def Let_def split: sum.splits)
  show ?thesis
  proof (intro conjI impI)
    assume "map_of (release_image_cache s) (taskDefinition primary) = Some cached"
    with ri have "r = Inr cached"
      by (simp add: get_release_image_def)
    with nx show "fst (ECSEventIterator_next sha1 c s) =
               (if cached \<noteq> self_component s @ '':'' @ self_version s
                  then Inl ImageDoesNotMatchError
                else if runningCount primary \<noteq> desiredCount primary
                  then Inr (InProgressEvent (runningCount primary) (desiredCount primary))
                else Inr (DoneEvent (runningCount primary) (desiredCount primary)))"
      by simp
  next
    assume a: "map_of (release_image_cache s) (taskDefinition primary) = None
            \<and> describe_task_definition c
                 (ecs_calls s @ [DescribeServices (self_cluster s) [service_name sha1 s]])
                 (taskDefinition primary) = Ok td"
    with ri have "r = (case containerDefinitions td of
                  [] \<Rightarrow> Inl IndexError
                | cd # cds \<Rightarrow>
                    (case split_on CHR ''/'' (image_name cd) of
                       registry # img # rest \<Rightarrow> Inr img
                     | _ \<Rightarrow> Inl IndexError))"
      by (auto simp add: get_release_image_def Let_def split: list.splits)
    with nx show "fst (ECSEventIterator_next sha1 c s) =
               (case containerDefinitions td of
                  [] \<Rightarrow> Inl IndexError
                | cd # cds \<Rightarrow>
                    (case split_on CHR ''/'' (image_name cd) of
                       registry # img # rest \<Rightarrow>
                         (if img \<noteq> self_component s @ '':'' @ self_version s
                            then Inl ImageDoesNotMatchError
                          else if runningCount primary \<noteq> desiredCount primary
                            then Inr (InProgressEvent (runningCount primary)
                                        (desiredCount primary))
                          else Inr (DoneEvent (runningCount primary) (desiredCount primary)))
                     | _ \<Rightarrow> Inl IndexError))"
      by (simp split: list.splits)
  qed
qed

text \<open>
  The service \<open>svc\<close> at version \<open>1.2.3\<close> with 3 of 3 tasks running. When the container
  image is \<open>svc:1.2.3\<close> itself the call raises \<open>IndexError\<close> and returns no \<open>DoneEvent\<close>; when
  it is \<open>registry.example.com/team/svc:1.2.3\<close> the release image is \<open>team\<close> and the call
  raises \<open>ImageDoesNotMatchError\<close>.
\<close>

theorem next_event_bare_image_counterexample:
  "self_component fixture_iterator @ '':'' @ self_version fixture_iterator = ''svc:1.2.3''
   \<and> fst (ECSEventIterator_next (\<lambda>_. []) (fixture_ecs_client 3 3 ''svc:1.2.3'') fixture_iterator)
       = Inl IndexError
   \<and> fst (ECSEventIterator_next (\<lambda>_. []) (fixture_ecs_client 3 3 ''svc:1.2.3'') fixture_iterator)
       \<noteq> Inr (DoneEvent 3 3)
   \<and> fst (ECSEventIterator_next (\<lambda>_. [])
            (fixture_ecs_client 3 3 ''registry.example.com/team/svc:1.2.3'') fixture_iterator)
       = Inl ImageDoesNotMatchError"
  by (simp add: fixture_simps ECSEventIterator_next_def get_primary_deployment_def
        get_release_image_def Let_def)

theorem next_event_by_release_image_witness:
  "fst (ECSEventIterator_next (\<lambda>_. [])
          (fixture_ecs_client 3 3 ''registry.example.com/svc:1.2.3'') fixture_iterator)
     = Inr (DoneEvent 3 3)
   \<and> fst (ECSEventIterator_next (\<lambda>_. [])
          (fixture_ecs_client 1 3 ''registry.example.com/svc:1.2.3'') fixture_iterator)
     = Inr (InProgressEvent 1 3)
   \<and> fst (ECSEventIterator_next (\<lambda>_. [])
          (fixture_ecs_client 3 3 ''registry.example.com/svc:1.2.2'') fixture_iterator)
     = Inl ImageDoesNotMatchError
   \<and> fst (ECSEventIterator_next (\<lambda>_. [])
          (fixture_ecs_client 3 3 ''svc:1.2.3'') fixture_iterator)
     = Inl IndexError
   \<and> fst (ECSEventIterator_next (\<lambda>_. [])
          (fixture_ecs_client 3 3 ''svc:1.2.3'')
          (fixture_iterator\<lparr>release_image_cache :=
                               [(''arn:task-definition/svc:7'', ''svc:1.2.3'')]\<rparr>))
     = Inr (DoneEvent 3 3)"
proof -
  let ?primary = "\<lambda>running desired.
       \<lparr>status = ''PRIMARY'', taskDefinition = ''arn:task-definition/svc:7'',
        runningCount = running, desiredCount = desired\<rparr>"
  let ?cached = "fixture_iterator\<lparr>release_image_cache :=
                               [(''arn:task-definition/svc:7'', ''svc:1.2.3'')]\<rparr>"
  have nd: "\<not> self_done fixture_iterator" "\<not> self_done ?cached"
    by (simp_all add: fixture_simps)
  have ds: "describe_services (fixture_ecs_client running desired img)
              (ecs_calls fixture_iterator) (self_cluster fixture_iterator)
              [service_name (\<lambda>_. []) fixture_iterator]
            = Ok (fixture_deployments running desired # [])" for running desired img
    by (simp add: fixture_simps)
  have ds': "describe_services (fixture_ecs_client running desired img)
              (ecs_calls ?cached) (self_cluster ?cached) [service_name (\<lambda>_. []) ?cached]
            = Ok (fixture_deployments running desired # [])" for running desired img
    by (simp add: fixture_simps)
  have prim: "filter (\<lambda>d. status d = ''PRIMARY'') (deployments (fixture_deployments running desired))
              = ?primary running desired # []" for running desired
    by (simp add: fixture_simps)
  have miss: "map_of (release_image_cache fixture_iterator)
                (taskDefinition (?primary running desired)) = None
            \<and> describe_task_definition (fixture_ecs_client running desired img)
                 (ecs_calls fixture_iterator
                    @ [DescribeServices (self_cluster fixture_iterator)
                         [service_name (\<lambda>_. []) fixture_iterator]])
                 (taskDefinition (?primary running desired))
                 = Ok \<lparr>containerDefinitions = [\<lparr>image_name = img\<rparr>]\<rparr>" for running desired img
    by (simp add: fixture_simps)
  have hit: "map_of (release_image_cache ?cached) (taskDefinition (?primary running desired))
               = Some ''svc:1.2.3''" for running desired :: int
    by (simp add: fixture_simps)
  note fetched = next_event_by_release_image [OF nd(1) ds prim, THEN conjunct2, THEN mp, OF miss]
  note cached = next_event_by_release_image [OF nd(2) ds' prim, THEN conjunct1, THEN mp, OF hit]
  from fetched [of 3 3 "''registry.example.com/svc:1.2.3''"]
  have 1: "fst (ECSEventIterator_next (\<lambda>_. [])
          (fixture_ecs_client 3 3 ''registry.example.com/svc:1.2.3'') fixture_iterator)
     = Inr (DoneEvent 3 3)"
    by (simp add: fixture_simps)
  from fetched [of 1 3 "''registry.example.com/svc:1.2.3''"]
  have 2: "fst (ECSEventIterator_next (\<lambda>_. [])
          (fixture_ecs_client 1 3 ''registry.example.com/svc:1.2.3'') fixture_iterator)
     = Inr (InProgressEvent 1 3)"
    by (simp add: fixture_simps)
  from fetched [of 3 3 "''registry.example.com/svc:1.2.2''"]
  have 3: "fst (ECSEventIterator_next (\<lambda>_. [])
          (fixture_ecs_client 3 3 ''registry.example.com/svc:1.2.2'') fixture_iterator)
     = Inl ImageDoesNotMatchError"
    by (simp add: fixture_simps)
  from fetched [of 3 3 "''svc:1.2.3''"]
  have 4: "fst (ECSEventIterator_next (\<lambda>_. [])
          (fixture_ecs_client 3 3 ''svc:1.2.3'') fixture_iterator)
     = Inl IndexError"
    by (simp add: fixture_simps)
  from cached [of 3 3 "''svc:1.2.3''"]
  have 5: "fst (ECSEventIterator_next (\<lambda>_. []) (fixture_ecs_client 3 3 ''svc:1.2.3'') ?cached)
     = Inr (DoneEvent 3 3)"
    by (simp add: fixture_simps)
  from 1 2 3 4 5 show ?thesis by simp
qed

text \<open>
  C10. A poll before the latch is set whose describe-services response has no service,
  or whose first service has no deployment of status \<open>PRIMARY\<close>, raises \<open>IndexError\<close>:
  no event is returned, no other error is raised and the latch stays unset.
\<close>

theorem next_index_error:
  assumes "\<not> self_done s"
    and "describe_services c (ecs_calls s) (self_cluster s) [service_name sha1 s] = Ok svcs"
    and "case svcs of [] \<Rightarrow> True
         | svc # others \<Rightarrow> filter (\<lambda>d. status d = ''PRIMARY'') (deployments svc) = []"
  shows "ECSEventIterator_next sha1 c s =
           (Inl IndexError,
            s\<lparr>ecs_calls :=
                 ecs_calls s @ [DescribeServices (self_cluster s) [service_name sha1 s]]\<rparr>)"
  using assms
  by (simp add: ECSEventIterator_next_def get_primary_deployment_def Let_def split: list.splits)

theorem next_index_error_witness:
  "ECSEventIterator_next (\<lambda>_. [])
     \<lparr>describe_services = (\<lambda>calls cluster names. Ok []),
      describe_task_definition = (\<lambda>calls arn. ClientErr None)\<rparr> fixture_iterator
     = (Inl IndexError, fixture_iterator\<lparr>ecs_calls := [DescribeServices ''cluster'' [''live-svc'']]\<rparr>)
   \<and> ECSEventIterator_next (\<lambda>_. [])
     \<lparr>describe_services = (\<lambda>calls cluster names.
         Ok [\<lparr>deployments = [\<lparr>status = ''ACTIVE'', taskDefinition = ''arn:task-definition/svc:6'',
                                runningCount = 2, desiredCount = 2\<rparr>]\<rparr>]),
      describe_task_definition = (\<lambda>calls arn. ClientErr None)\<rparr> fixture_iterator
     = (Inl IndexError, fixture_iterator\<lparr>ecs_calls := [DescribeServices ''cluster'' [''live-svc'']]\<rparr>)"
  using next_index_error
     [of fixture_iterator "\<lparr>describe_services = (\<lambda>calls cluster names. Ok []),
      describe_task_definition = (\<lambda>calls arn. ClientErr None)\<rparr>" "\<lambda>_. []" "[]"]
    next_index_error
     [of fixture_iterator "\<lparr>describe_services = (\<lambda>calls cluster names.
         Ok [\<lparr>deployments = [\<lparr>status = ''ACTIVE'', taskDefinition = ''arn:task-definition/svc:6'',
                                runningCount = 2, desiredCount = 2\<rparr>]\<rparr>]),
      describe_task_definition = (\<lambda>calls arn. ClientErr None)\<rparr>" "\<lambda>_. []"
      "[\<lparr>deployments = [\<lparr>status = ''ACTIVE'', taskDefinition = ''arn:task-definition/svc:6'',
                                runningCount = 2, desiredCount = 2\<rparr>]\<rparr>]"]
  by (simp add: fixture_simps)

text \<open>
  C6. Once \<^verbatim>\<open>__next__\<close> has returned a \<open>DoneEvent\<close>, the latch is set and every later call
  raises \<open>StopIteration\<close> and leaves the object as it is (so no call reaches the client).
  The events of a fresh iterator are \<open>InProgressEvent\<close>s followed by at most one \<open>DoneEvent\<close>;
  when the iteration ends by \<open>StopIteration\<close> there is exactly one \<open>DoneEvent\<close>, the last
  event; when it ends by an error all events before it are \<open>InProgressEvent\<close>s.
\<close>

theorem done_event_is_terminal:
  "(ECSEventIterator_next sha1 c s0 = (Inr (DoneEvent r d), t)
      \<longrightarrow> self_done t \<and> (\<forall>k. next_after sha1 c k t = (Inl StopIteration, t)))
   \<and> (\<not> self_done s \<and> events_of sha1 c n s = (evs, ending, s')
      \<longrightarrow> (\<exists>ips tl. evs = ips @ tl \<and> list_all in_progress ips
                \<and> (tl = [] \<or> (\<exists>running desired. tl = [DoneEvent running desired])))
        \<and> (ending = Exhausted
             \<longrightarrow> (\<exists>ips running desired.
                    evs = ips @ [DoneEvent running desired] \<and> list_all in_progress ips))
        \<and> (\<forall>e. ending = Failed e \<longrightarrow> list_all in_progress evs \<and> e \<noteq> StopIteration))"
proof (intro conjI impI)
  assume "ECSEventIterator_next sha1 c s0 = (Inr (DoneEvent r d), t)"
  then show "self_done t" by (rule next_done_event)
  then show "\<forall>k. next_after sha1 c k t = (Inl StopIteration, t)"
    by (simp add: next_after_done)
next
  assume a: "\<not> self_done s \<and> events_of sha1 c n s = (evs, ending, s')"
  then have ev: "events_of sha1 c n s = (evs, ending, s')" and nd: "\<not> self_done s"
    by simp_all
  from events_of_shape [OF ev] obtain ips tl where
    sh: "evs = ips @ tl" "list_all in_progress ips"
        "tl = [] \<or> (\<exists>r d. tl = [DoneEvent r d] \<and> self_done s')"
        "ending = Exhausted \<and> \<not> self_done s \<longrightarrow> tl \<noteq> []"
        "\<forall>e. ending = Failed e \<longrightarrow> tl = [] \<and> e \<noteq> StopIteration"
    by blast
  from sh(1-3) show "\<exists>ips tl. evs = ips @ tl \<and> list_all in_progress ips
                \<and> (tl = [] \<or> (\<exists>running desired. tl = [DoneEvent running desired]))"
    by blast
  {
    assume "ending = Exhausted"
    with sh nd show "\<exists>ips running desired.
                    evs = ips @ [DoneEvent running desired] \<and> list_all in_progress ips"
      by blast
  }
  from sh show "\<forall>e. ending = Failed e \<longrightarrow> list_all in_progress evs \<and> e \<noteq> StopIteration"
    by auto
qed

lemma fixture_run:
  "events_of (\<lambda>_. []) fixture_settling_client (Suc (Suc (Suc (Suc 0)))) fixture_iterator
     = ([InProgressEvent 1 3, InProgressEvent 2 3, DoneEvent 3 3], Exhausted, fixture_polled (Suc (Suc 0)))"
  by (simp add: fixture_simps fixture_polled_def ECSEventIterator_next_def get_primary_deployment_def get_release_image_def Let_def)

lemma fixture_third:
  "ECSEventIterator_next (\<lambda>_. []) fixture_settling_client (fixture_polled (Suc 0))
     = (Inr (DoneEvent 3 3), fixture_polled (Suc (Suc 0)))"
  by (simp add: fixture_simps fixture_polled_def ECSEventIterator_next_def get_primary_deployment_def get_release_image_def Let_def)

theorem done_event_is_terminal_witness:
  "events_of (\<lambda>_. []) fixture_settling_client (Suc (Suc (Suc (Suc 0)))) fixture_iterator
     = ([InProgressEvent 1 3, InProgressEvent 2 3, DoneEvent 3 3], Exhausted,
        fixture_polled (Suc (Suc 0)))
   \<and> (\<exists>ips running desired.
         [InProgressEvent 1 3, InProgressEvent 2 3, DoneEvent 3 3]
           = ips @ [DoneEvent running desired] \<and> list_all in_progress ips)
   \<and> ECSEventIterator_next (\<lambda>_. []) fixture_settling_client (fixture_polled (Suc 0))
        = (Inr (DoneEvent 3 3), fixture_polled (Suc (Suc 0)))
   \<and> self_done (fixture_polled (Suc (Suc 0)))
   \<and> next_after (\<lambda>_. []) fixture_settling_client 5 (fixture_polled (Suc (Suc 0)))
        = (Inl StopIteration, fixture_polled (Suc (Suc 0)))"
proof -
  have nd: "\<not> self_done fixture_iterator"
    by (simp add: fixture_simps)
  from done_event_is_terminal
    [of "\<lambda>_. []" fixture_settling_client "fixture_polled (Suc 0)" 3 3
        "fixture_polled (Suc (Suc 0))" fixture_iterator "Suc (Suc (Suc (Suc 0)))"
        "[InProgressEvent 1 3, InProgressEvent 2 3, DoneEvent 3 3]" Exhausted
        "fixture_polled (Suc (Suc 0))"]
    fixture_run fixture_third nd
  show ?thesis
    by simp
qed

section \<open>Properties of terragrunt.py\<close>

subsection \<open>LockTableFactory\<close>

lemmas lock_table_simps =
  get_table_name_def try_to_get_table_def check_tag_def check_schema_def create_table_def
  resource_not_found_def Let_def

text \<open>
  C4, as the code has it. When the table \<open>terraform_locks\<close> is described and its tags are
  listed, \<open>get_table_name\<close> checks the tag first: it raises \<open>MissingTagError\<close> when the
  sentinel tag \<open>cdflow_terraform_locks=true\<close> is absent, whatever the schema;
  \<open>IncorrectSchemaError\<close> when the tag is there and no attribute definition is named
  \<open>LockID\<close>; otherwise it returns the name of the described table. When the describe
  fails with \<open>ResourceNotFoundException\<close> and the three calls that follow succeed, it has
  created the table with the one attribute \<open>LockID\<close> of type \<open>S\<close>, the one key \<open>LockID\<close>
  of type \<open>HASH\<close> and 1 read and 1 write unit, tagged it with the sentinel tag, waited
  for it to exist, in this order, and returns \<open>terraform_locks\<close>. Any other error of the
  describe is raised as it is, after no further call.
\<close>

theorem get_table_name_cases:
  "(dynamodb_describe_table client LockTableFactory_TABLE_NAME = Ok tbl
      \<and> dynamodb_list_tags_of_resource client (TableArn tbl) = Ok tags
    \<longrightarrow> get_table_name client =
          (if \<not> list_ex (\<lambda>tag. fst tag = LockTableFactory_TAG_NAME
                                \<and> snd tag = LockTableFactory_TAG_VALUE) tags
             then Inl (MissingTagError (''No tag '' @ LockTableFactory_TAG_NAME
                                          @ '' found for '' @ TableArn tbl))
           else if \<not> list_ex (\<lambda>attribute. fst attribute = ''LockID'') (AttributeDefinitions tbl)
             then Inl (IncorrectSchemaError ''No attribute LockID in table'')
           else Inr (TableName tbl),
           [DescribeTable LockTableFactory_TABLE_NAME, ListTagsOfResource (TableArn tbl)]))
   \<and> (dynamodb_describe_table client LockTableFactory_TABLE_NAME
          = ClientErr (Some ''ResourceNotFoundException'')
      \<and> dynamodb_create_table client LockTableFactory_TABLE_NAME
            [(''LockID'', ''S'')] [(''LockID'', ''HASH'')] 1 1 = Ok arn
      \<and> dynamodb_tag_resource client arn
            [(LockTableFactory_TAG_NAME, LockTableFactory_TAG_VALUE)] = Ok ()
      \<and> dynamodb_wait_table_exists client LockTableFactory_TABLE_NAME = Ok ()
    \<longrightarrow> get_table_name client =
          (Inr LockTableFactory_TABLE_NAME,
           [DescribeTable LockTableFactory_TABLE_NAME,
            CreateTable LockTableFactory_TABLE_NAME [(''LockID'', ''S'')] [(''LockID'', ''HASH'')] 1 1,
            TagResource arn [(LockTableFactory_TAG_NAME, LockTableFactory_TAG_VALUE)],
            WaitTableExists LockTableFactory_TABLE_NAME]))
   \<and> (dynamodb_describe_table client LockTableFactory_TABLE_NAME = ClientErr code
      \<and> code \<noteq> Some ''ResourceNotFoundException''
    \<longrightarrow> get_table_name client
          = (Inl (ClientError code), [DescribeTable LockTableFactory_TABLE_NAME]))
   \<and> (dynamodb_describe_table client LockTableFactory_TABLE_NAME = OtherErr msg
    \<longrightarrow> get_table_name client
          = (Inl (OtherError msg), [DescribeTable LockTableFactory_TABLE_NAME]))"
  by (simp add: lock_table_simps)

text \<open>
  The table of the test \<^verbatim>\<open>test_table_must_have_correct_schema\<close>, without its tag: no
  attribute definition is named \<open>LockID\<close>, and the error is \<open>MissingTagError\<close>, not
  \<open>IncorrectSchemaError\<close>.
\<close>

theorem get_table_name_schema_counterexample:
  "dynamodb_describe_table (fixture_dynamodb_client (Ok (fixture_table ''IncorrectColumn'')) [])
      LockTableFactory_TABLE_NAME = Ok (fixture_table ''IncorrectColumn'')
   \<and> \<not> list_ex (\<lambda>attribute. fst attribute = ''LockID'')
          (AttributeDefinitions (fixture_table ''IncorrectColumn''))
   \<and> fst (get_table_name (fixture_dynamodb_client (Ok (fixture_table ''IncorrectColumn'')) []))
       = Inl (MissingTagError
           ''No tag cdflow_terraform_locks found for arn:aws:dynamodb:eu-west-12:123456789:table/terraform_locks'')
   \<and> (\<forall>msg. fst (get_table_name (fixture_dynamodb_client (Ok (fixture_table ''IncorrectColumn'')) []))
          \<noteq> Inl (IncorrectSchemaError msg))"
  by (simp add: lock_table_simps fixture_dynamodb_client_def fixture_table_def
       LockTableFactory_TAG_NAME_def LockTableFactory_TAG_VALUE_def LockTableFactory_TABLE_NAME_def)

theorem get_table_name_cases_witness:
  "get_table_name (fixture_dynamodb_client (Ok (fixture_table ''LockID''))
       [(''cdflow_terraform_locks'', ''true'')])
     = (Inr ''terraform_locks'',
        [DescribeTable ''terraform_locks'',
         ListTagsOfResource ''arn:aws:dynamodb:eu-west-12:123456789:table/terraform_locks''])
   \<and> fst (get_table_name (fixture_dynamodb_client (Ok (fixture_table ''IncorrectColumn''))
       [(''cdflow_terraform_locks'', ''true'')]))
     = Inl (IncorrectSchemaError ''No attribute LockID in table'')
   \<and> fst (get_table_name (fixture_dynamodb_client (Ok (fixture_table ''LockID''))
       [(''owner'', ''true'')]))
     = Inl (MissingTagError
         ''No tag cdflow_terraform_locks found for arn:aws:dynamodb:eu-west-12:123456789:table/terraform_locks'')
   \<and> get_table_name (fixture_dynamodb_client (ClientErr (Some ''ResourceNotFoundException'')) [])
     = (Inr ''terraform_locks'',
        [DescribeTable ''terraform_locks'',
         CreateTable ''terraform_locks'' [(''LockID'', ''S'')] [(''LockID'', ''HASH'')] 1 1,
         TagResource ''arn:new-table'' [(''cdflow_terraform_locks'', ''true'')],
         WaitTableExists ''terraform_locks''])
   \<and> get_table_name (fixture_dynamodb_client (ClientErr (Some ''TerribleError'')) [])
     = (Inl (ClientError (Some ''TerribleError'')), [DescribeTable ''terraform_locks''])
   \<and> get_table_name (fixture_dynamodb_client (OtherErr ''EndpointConnectionError'') [])
     = (Inl (OtherError ''EndpointConnectionError''), [DescribeTable ''terraform_locks''])"
proof -
  let ?tagged = "[(''cdflow_terraform_locks'', ''true'')]"
  note c = LockTableFactory_TAG_NAME_def LockTableFactory_TAG_VALUE_def
    LockTableFactory_TABLE_NAME_def fixture_dynamodb_client_def fixture_table_def
  from get_table_name_cases
         [of "fixture_dynamodb_client (Ok (fixture_table ''LockID'')) ?tagged"
             "fixture_table ''LockID''" ?tagged]
  have 1: "get_table_name (fixture_dynamodb_client (Ok (fixture_table ''LockID'')) ?tagged)
     = (Inr ''terraform_locks'',
        [DescribeTable ''terraform_locks'',
         ListTagsOfResource ''arn:aws:dynamodb:eu-west-12:123456789:table/terraform_locks''])"
    by (simp add: c)
  from get_table_name_cases
         [of "fixture_dynamodb_client (Ok (fixture_table ''IncorrectColumn'')) ?tagged"
             "fixture_table ''IncorrectColumn''" ?tagged]
  have 2: "fst (get_table_name (fixture_dynamodb_client (Ok (fixture_table ''IncorrectColumn'')) ?tagged))
     = Inl (IncorrectSchemaError ''No attribute LockID in table'')"
    by (simp add: c)
  from get_table_name_cases
         [of "fixture_dynamodb_client (Ok (fixture_table ''LockID'')) [(''owner'', ''true'')]"
             "fixture_table ''LockID''" "[(''owner'', ''true'')]"]
  have 3: "fst (get_table_name (fixture_dynamodb_client (Ok (fixture_table ''LockID''))
       [(''owner'', ''true'')]))
     = Inl (MissingTagError
         ''No tag cdflow_terraform_locks found for arn:aws:dynamodb:eu-west-12:123456789:table/terraform_locks'')"
    by (simp add: c)
  from get_table_name_cases
         [of "fixture_dynamodb_client (ClientErr (Some ''ResourceNotFoundException'')) []"
             _ _ "''arn:new-table''"]
  have 4: "get_table_name (fixture_dynamodb_client (ClientErr (Some ''ResourceNotFoundException'')) [])
     = (Inr ''terraform_locks'',
        [DescribeTable ''terraform_locks'',
         CreateTable ''terraform_locks'' [(''LockID'', ''S'')] [(''LockID'', ''HASH'')] 1 1,
         TagResource ''arn:new-table'' [(''cdflow_terraform_locks'', ''true'')],
         WaitTableExists ''terraform_locks''])"
    by (simp add: c)
  from get_table_name_cases
         [of "fixture_dynamodb_client (ClientErr (Some ''TerribleError'')) []"
             _ _ _ "Some ''TerribleError''"]
  have 5: "get_table_name (fixture_dynamodb_client (ClientErr (Some ''TerribleError'')) [])
     = (Inl (ClientError (Some ''TerribleError'')), [DescribeTable ''terraform_locks''])"
    by (simp add: c)
  from get_table_name_cases
         [of "fixture_dynamodb_client (OtherErr ''EndpointConnectionError'') []"
             _ _ _ _ "''EndpointConnectionError''"]
  have 6: "get_table_name (fixture_dynamodb_client (OtherErr ''EndpointConnectionError'') [])
     = (Inl (OtherError ''EndpointConnectionError''), [DescribeTable ''terraform_locks''])"
    by (simp add: c)
  from 1 2 3 4 5 6 show ?thesis by simp
qed

subsection \<open>S3BucketFactory\<close>

text \<open>
  The comprehension sends no creating call, and it ends with an error of the client or
  with the qualifying buckets, in the order of the listing.
\<close>

lemma bucket_has_tag_cases:
  "bucket_has_tag self b =
     (case s3_get_bucket_tagging (boto_s3_client self) b of
        Ok tags \<Rightarrow> (Inr (dict_of_tags tags TAG_NAME = Some TAG_VALUE), [GetBucketTagging b])
      | ClientErr code \<Rightarrow>
          (if code = Some ''NoSuchTagSet'' then (Inr False, [GetBucketTagging b])
           else (Inl (ClientError code), [GetBucketTagging b]))
      | OtherErr msg \<Rightarrow> (Inl (OtherError msg), [GetBucketTagging b]))"
  by (simp add: bucket_has_tag_def get_bucket_tags_def split: response.splits)

lemma tagged_buckets_reads: "filter is_write (snd (tagged_buckets self bs)) = []"
proof (induction bs)
  case Nil
  show ?case by simp
next
  case (Cons b bs)
  then show ?case
    by (auto simp add: bucket_has_tag_cases bucket_in_current_region_def
          split: response.splits prod.splits sum.splits if_splits)
qed

lemma tagged_buckets_result:
  "fst (tagged_buckets self bs) = Inr (filter (qualifies self) bs)
   \<or> (\<exists>e. fst (tagged_buckets self bs) = Inl e \<and> sdk_error e)"
proof (induction bs)
  case Nil
  show ?case by simp
next
  case (Cons b bs)
  then show ?case
    by (auto simp add: bucket_has_tag_cases bucket_in_current_region_def qualifies_def
          split: response.splits prod.splits sum.splits if_splits)
qed

lemma tagged_buckets_readable:
  "list_all (readable self) bs \<Longrightarrow> fst (tagged_buckets self bs) = Inr (filter (qualifies self) bs)"
proof (induction bs)
  case Nil
  show ?case by simp
next
  case (Cons b bs)
  then show ?case
    by (auto simp add: bucket_has_tag_cases bucket_in_current_region_def qualifies_def readable_def
          split: response.splits prod.splits sum.splits if_splits)
qed


lemma attempt_taken:
  "name_taken sha1 self attempt \<Longrightarrow>
   attempt_to_create_bucket self (generate_bucket_name sha1 self attempt)
     = (Inr False, [creation_call sha1 self attempt])"
  by (auto simp add: name_taken_def attempt_to_create_bucket_def creation_call_def)

lemma attempt_free:
  "s3_create_bucket (boto_s3_client self) (generate_bucket_name sha1 self attempt)
     (aws_region self) = Ok () \<Longrightarrow>
   attempt_to_create_bucket self (generate_bucket_name sha1 self attempt)
     = (Inr True, [creation_call sha1 self attempt])"
  by (simp add: attempt_to_create_bucket_def creation_call_def)

lemma create_bucket_attempts_all_taken:
  "list_all (name_taken sha1 self) attempts \<Longrightarrow>
   create_bucket_attempts sha1 self attempts
     = (Inl (Exception (''could not create bucket after '' @ str_nat MAX_CREATION_ATTEMPTS
                          @ '' attempts'')),
        map (creation_call sha1 self) attempts)"
  by (induction attempts) (simp_all add: attempt_taken Let_def)

lemma create_bucket_attempts_first_free:
  assumes "list_all (name_taken sha1 self) attempts"
    and "s3_create_bucket (boto_s3_client self) (generate_bucket_name sha1 self k)
           (aws_region self) = Ok ()"
  shows "create_bucket_attempts sha1 self (attempts @ k # rest)
           = (Inr (generate_bucket_name sha1 self k), map (creation_call sha1 self) (attempts @ [k]))"
  using assms by (induction attempts) (simp_all add: attempt_taken attempt_free Let_def)

lemma str_nat_MAX: "str_nat MAX_CREATION_ATTEMPTS = ''10''"
proof -
  have "str_nat 1 = ''1''"
    by (subst str_nat.simps) (simp add: digit_char_def)
  moreover have "str_nat 10 = str_nat 1 @ ''0''"
    by (subst str_nat.simps) (simp add: digit_char_def)
  ultimately show ?thesis
    by (simp add: MAX_CREATION_ATTEMPTS_def)
qed

lemma create_bucket_first_free:
  assumes "k < MAX_CREATION_ATTEMPTS"
    and "list_all (name_taken sha1 self) [0..<k]"
    and "s3_create_bucket (boto_s3_client self) (generate_bucket_name sha1 self k)
           (aws_region self) = Ok ()"
  shows "create_bucket sha1 self
           = (Inr (generate_bucket_name sha1 self k), map (creation_call sha1 self) [0..<Suc k])"
proof -
  from assms(1) obtain m where m: "MAX_CREATION_ATTEMPTS = k + Suc m"
    using less_imp_Suc_add by auto
  have "[0..<k + Suc m] = [0..<k] @ [k..<k + Suc m]"
    by (rule upt_add_eq_append) simp
  also have "[k..<k + Suc m] = k # [Suc k..<k + Suc m]"
    by (rule upt_conv_Cons) simp
  finally have "[0..<MAX_CREATION_ATTEMPTS] = [0..<k] @ k # [Suc k..<MAX_CREATION_ATTEMPTS]"
    by (simp only: m)
  with create_bucket_attempts_first_free [OF assms(2,3), of "[Suc k..<MAX_CREATION_ATTEMPTS]"]
  show ?thesis
    by (simp add: create_bucket_def)
qed

lemma str_nat_digit: "n < 10 \<Longrightarrow> str_nat n = [digit_char n]"
  by (subst str_nat.simps) simp

lemmas s3_fixture_simps =
  fixture_factory_def fixture_s3_client_def fixture_sha1_def fixture_first_two_taken_def
  TAG_NAME_def TAG_VALUE_def NAME_PREFIX_def

lemma fixture_names:
  "generate_bucket_name fixture_sha1 (fixture_factory ''eu-west-1'' names location taken) 0
     = ''cdflow-tfstate-d33047a9f075''"
  "generate_bucket_name fixture_sha1 (fixture_factory ''eu-west-1'' names location taken) (Suc 0)
     = ''cdflow-tfstate-b400dc5cf3da''"
  "generate_bucket_name fixture_sha1 (fixture_factory ''eu-west-1'' names location taken) 2
     = ''cdflow-tfstate-ab8edb4d98cd''"
  "generate_bucket_name fixture_sha1 (fixture_factory ''us-east-1'' names location taken) 0
     = ''cdflow-tfstate-2e0b1f3804e4''"
  by (simp_all add: generate_bucket_name_def s3_fixture_simps str_nat_digit digit_char_def)

text \<open>
  C1. The buckets are listed and read without error and none qualifies. Then, for every
  \<open>k\<close> below 10: if the attempts before \<open>k\<close> find their names taken
  (\<open>BucketAlreadyExists\<close> or \<open>BucketAlreadyOwnedByYou\<close>), the creation of attempt \<open>k\<close>
  succeeds and the tagging of its name succeeds, \<open>get_bucket_name\<close> returns the name of
  attempt \<open>k\<close>, having sent exactly the creations of the attempts \<open>0\<close> to \<open>k\<close> and one
  tagging; if all 10 attempts find their names taken it raises the exception
  \<open>could not create bucket after 10 attempts\<close> after exactly those 10 creations. The name
  of attempt \<open>k\<close> is \<open>cdflow-tfstate-\<close> and the first 12 characters of the digest of
  region, account id and \<open>str(k)\<close> joined.
\<close>

theorem get_bucket_name_creates:
  assumes listed: "s3_list_buckets (boto_s3_client self) = Ok names"
    and reads: "list_all (readable self) (remdups names)"
    and none: "filter (qualifies self) (remdups names) = []"
  shows "(k < MAX_CREATION_ATTEMPTS
          \<and> list_all (name_taken sha1 self) [0..<k]
          \<and> s3_create_bucket (boto_s3_client self) (generate_bucket_name sha1 self k)
               (aws_region self) = Ok ()
          \<and> s3_put_bucket_tagging (boto_s3_client self) (generate_bucket_name sha1 self k)
               [(TAG_NAME, TAG_VALUE)] = Ok ()
        \<longrightarrow> fst (get_bucket_name sha1 self) = Inr (generate_bucket_name sha1 self k)
            \<and> filter is_write (snd (get_bucket_name sha1 self))
                = map (creation_call sha1 self) [0..<Suc k]
                  @ [PutBucketTagging (generate_bucket_name sha1 self k) [(TAG_NAME, TAG_VALUE)]])
       \<and> (list_all (name_taken sha1 self) [0..<MAX_CREATION_ATTEMPTS]
        \<longrightarrow> fst (get_bucket_name sha1 self)
              = Inl (Exception ''could not create bucket after 10 attempts'')
            \<and> filter is_write (snd (get_bucket_name sha1 self))
                = map (creation_call sha1 self) [0..<MAX_CREATION_ATTEMPTS])
       \<and> generate_bucket_name sha1 self k
           = ''cdflow-tfstate-'' @ take 12 (sha1 (aws_region self @ account_id self @ str_nat k))"
proof -
  obtain calls where tb: "tagged_buckets self (remdups names) = (Inr [], calls)"
    using tagged_buckets_readable [OF reads] none
    by (cases "tagged_buckets self (remdups names)") simp
  have rd: "filter is_write calls = []"
    using tagged_buckets_reads [of self "remdups names"] tb by simp
  have w: "filter is_write (map (creation_call sha1 self) as) = map (creation_call sha1 self) as" for as
    by (induction as) (simp_all add: creation_call_def)
  show ?thesis
  proof (intro conjI impI)
    assume a: "k < MAX_CREATION_ATTEMPTS
          \<and> list_all (name_taken sha1 self) [0..<k]
          \<and> s3_create_bucket (boto_s3_client self) (generate_bucket_name sha1 self k)
               (aws_region self) = Ok ()
          \<and> s3_put_bucket_tagging (boto_s3_client self) (generate_bucket_name sha1 self k)
               [(TAG_NAME, TAG_VALUE)] = Ok ()"
    then have cb: "create_bucket sha1 self
           = (Inr (generate_bucket_name sha1 self k), map (creation_call sha1 self) [0..<Suc k])"
      using create_bucket_first_free [of k sha1 self] by blast
    from a have tg: "tag_bucket self (generate_bucket_name sha1 self k)
        = (Inr (), [PutBucketTagging (generate_bucket_name sha1 self k) [(TAG_NAME, TAG_VALUE)]])"
      by (simp add: tag_bucket_def)
    from listed tb cb tg
    have g: "get_bucket_name sha1 self
        = (Inr (generate_bucket_name sha1 self k),
           ListBuckets # calls @ map (creation_call sha1 self) [0..<Suc k]
             @ [PutBucketTagging (generate_bucket_name sha1 self k) [(TAG_NAME, TAG_VALUE)]])"
      by (simp add: get_bucket_name_def Let_def del: upt_Suc)
    from g show "fst (get_bucket_name sha1 self) = Inr (generate_bucket_name sha1 self k)"
      by simp
    from g rd w [of "[0..<Suc k]"]
    show "filter is_write (snd (get_bucket_name sha1 self))
                = map (creation_call sha1 self) [0..<Suc k]
                  @ [PutBucketTagging (generate_bucket_name sha1 self k) [(TAG_NAME, TAG_VALUE)]]"
      by (simp del: upt_Suc)
  next
    assume a: "list_all (name_taken sha1 self) [0..<MAX_CREATION_ATTEMPTS]"
    then have cb: "create_bucket sha1 self
        = (Inl (Exception ''could not create bucket after 10 attempts''),
           map (creation_call sha1 self) [0..<MAX_CREATION_ATTEMPTS])"
      by (simp add: create_bucket_def create_bucket_attempts_all_taken str_nat_MAX)
    from listed tb cb
    have g: "get_bucket_name sha1 self
        = (Inl (Exception ''could not create bucket after 10 attempts''),
           ListBuckets # calls @ map (creation_call sha1 self) [0..<MAX_CREATION_ATTEMPTS])"
      by (simp add: get_bucket_name_def Let_def)
    from g show "fst (get_bucket_name sha1 self)
              = Inl (Exception ''could not create bucket after 10 attempts'')"
      by simp
    from g rd w [of "[0..<MAX_CREATION_ATTEMPTS]"]
    show "filter is_write (snd (get_bucket_name sha1 self))
                = map (creation_call sha1 self) [0..<MAX_CREATION_ATTEMPTS]"
      by simp
  next
    show "generate_bucket_name sha1 self k
           = ''cdflow-tfstate-'' @ take 12 (sha1 (aws_region self @ account_id self @ str_nat k))"
      by (simp add: generate_bucket_name_def NAME_PREFIX_def)
  qed
qed

theorem get_bucket_name_creates_witness:
  "fst (get_bucket_name fixture_sha1
          (fixture_factory ''eu-west-1'' [''other-bucket''] (Some ''us-west-2'')
             fixture_first_two_taken))
     = Inr ''cdflow-tfstate-ab8edb4d98cd''
   \<and> filter is_write (snd (get_bucket_name fixture_sha1
          (fixture_factory ''eu-west-1'' [''other-bucket''] (Some ''us-west-2'')
             fixture_first_two_taken)))
     = [CreateBucket ''cdflow-tfstate-d33047a9f075'' ''eu-west-1'',
        CreateBucket ''cdflow-tfstate-b400dc5cf3da'' ''eu-west-1'',
        CreateBucket ''cdflow-tfstate-ab8edb4d98cd'' ''eu-west-1'',
        PutBucketTagging ''cdflow-tfstate-ab8edb4d98cd'' [(''is-cdflow-tfstate-bucket'', ''true'')]]
   \<and> fst (get_bucket_name fixture_sha1
          (fixture_factory ''eu-west-1'' [''other-bucket''] (Some ''us-west-2'')
             (\<lambda>bucket_name. True)))
     = Inl (Exception ''could not create bucket after 10 attempts'')
   \<and> length (filter is_write (snd (get_bucket_name fixture_sha1
          (fixture_factory ''eu-west-1'' [''other-bucket''] (Some ''us-west-2'')
             (\<lambda>bucket_name. True))))) = 10"
proof -
  let ?some = "fixture_factory ''eu-west-1'' [''other-bucket''] (Some ''us-west-2'')
                 fixture_first_two_taken"
  let ?all = "fixture_factory ''eu-west-1'' [''other-bucket''] (Some ''us-west-2'')
                 (\<lambda>bucket_name. True)"
  have listed: "s3_list_buckets (boto_s3_client (fixture_factory ''eu-west-1'' [''other-bucket'']
                   (Some ''us-west-2'') taken)) = Ok [''other-bucket'']" for taken
    by (simp add: s3_fixture_simps)
  have reads: "list_all (readable (fixture_factory ''eu-west-1'' [''other-bucket'']
                   (Some ''us-west-2'') taken)) (remdups [''other-bucket''])" for taken
    by (simp add: readable_def dict_of_tags_def s3_fixture_simps)
  have none: "filter (qualifies (fixture_factory ''eu-west-1'' [''other-bucket'']
                   (Some ''us-west-2'') taken)) (remdups [''other-bucket'']) = []" for taken
    by (simp add: qualifies_def dict_of_tags_def s3_fixture_simps)
  note some = get_bucket_name_creates
    [OF listed [of fixture_first_two_taken] reads [of fixture_first_two_taken]
        none [of fixture_first_two_taken], where k = 2 and ?sha1.0 = fixture_sha1]
  note all_taken = get_bucket_name_creates
    [OF listed [of "\<lambda>bucket_name. True"] reads [of "\<lambda>bucket_name. True"]
        none [of "\<lambda>bucket_name. True"], where ?sha1.0 = fixture_sha1]
  have two: "list_all (name_taken fixture_sha1 ?some) [0..<2]"
    by (simp add: name_taken_def fixture_names upt_rec [of 0 2] upt_rec [of "Suc 0" 2]
          upt_rec [of 2 2])
       (simp add: s3_fixture_simps)
  have free: "s3_create_bucket (boto_s3_client ?some)
                (generate_bucket_name fixture_sha1 ?some 2) (aws_region ?some) = Ok ()"
    by (simp add: fixture_names) (simp add: s3_fixture_simps)
  have tagged: "s3_put_bucket_tagging (boto_s3_client ?some)
                (generate_bucket_name fixture_sha1 ?some 2) [(TAG_NAME, TAG_VALUE)] = Ok ()"
    by (simp add: s3_fixture_simps)
  have all: "list_all (name_taken fixture_sha1 ?all) attempts" for attempts
    by (induction attempts) (simp_all add: name_taken_def s3_fixture_simps)
  have pre: "2 < MAX_CREATION_ATTEMPTS
          \<and> list_all (name_taken fixture_sha1 ?some) [0..<2]
          \<and> s3_create_bucket (boto_s3_client ?some) (generate_bucket_name fixture_sha1 ?some 2)
               (aws_region ?some) = Ok ()
          \<and> s3_put_bucket_tagging (boto_s3_client ?some) (generate_bucket_name fixture_sha1 ?some 2)
               [(TAG_NAME, TAG_VALUE)] = Ok ()"
    using two free tagged by (simp add: MAX_CREATION_ATTEMPTS_def)
  have attempts: "[0..<Suc 2] = [0, Suc 0, 2]"
    by (simp add: upt_rec)
  have region: "aws_region ?some = ''eu-west-1''"
    by (simp add: fixture_factory_def)
  from some [THEN conjunct1, THEN mp, OF pre]
  have a: "fst (get_bucket_name fixture_sha1 ?some) = Inr ''cdflow-tfstate-ab8edb4d98cd''"
    and b: "filter is_write (snd (get_bucket_name fixture_sha1 ?some))
      = [CreateBucket ''cdflow-tfstate-d33047a9f075'' ''eu-west-1'',
        CreateBucket ''cdflow-tfstate-b400dc5cf3da'' ''eu-west-1'',
        CreateBucket ''cdflow-tfstate-ab8edb4d98cd'' ''eu-west-1'',
        PutBucketTagging ''cdflow-tfstate-ab8edb4d98cd'' [(''is-cdflow-tfstate-bucket'', ''true'')]]"
    by (simp_all only: attempts fixture_names creation_call_def region list.map append.simps
          TAG_NAME_def TAG_VALUE_def)
  from all_taken [THEN conjunct2, THEN conjunct1, THEN mp, OF all]
  have c: "fst (get_bucket_name fixture_sha1 ?all)
             = Inl (Exception ''could not create bucket after 10 attempts'')"
    and d: "length (filter is_write (snd (get_bucket_name fixture_sha1 ?all))) = 10"
    by (simp_all add: MAX_CREATION_ATTEMPTS_def)
  from a b c d show ?thesis by simp
qed

text \<open>
  C2, as the code has it. When two or more distinct listed buckets qualify,
  \<open>get_bucket_name\<close> returns no name and sends no creating or tagging call: it raises
  the \<open>AssertionError\<close> of its \<^verbatim>\<open>assert\<close>, or an error of the client met while reading
  the buckets; when every listed bucket is readable it is the \<open>AssertionError\<close>.
\<close>

theorem get_bucket_name_multiple:
  assumes listed: "s3_list_buckets (boto_s3_client self) = Ok names"
    and many: "2 \<le> length (filter (qualifies self) (remdups names))"
  shows "\<exists>e calls. get_bucket_name sha1 self = (Inl e, calls)
           \<and> filter is_write calls = []
           \<and> (e = AssertionError ''multiple buckets with is-cdflow-tfstate-bucket=true tag found''
              \<or> sdk_error e)
           \<and> (list_all (readable self) (remdups names)
                \<longrightarrow> e = AssertionError
                      ''multiple buckets with is-cdflow-tfstate-bucket=true tag found'')"
proof -
  obtain r calls where tb: "tagged_buckets self (remdups names) = (r, calls)"
    by (cases "tagged_buckets self (remdups names)")
  have rd: "filter is_write calls = []"
    using tagged_buckets_reads [of self "remdups names"] tb by simp
  from tagged_buckets_result [of self "remdups names"] tb
  consider (ok) "r = Inr (filter (qualifies self) (remdups names))"
    | (err) e where "r = Inl e" "sdk_error e"
    by auto
  then show ?thesis
  proof cases
    case ok
    with listed tb many rd show ?thesis
      by (simp add: get_bucket_name_def Let_def TAG_NAME_def TAG_VALUE_def)
  next
    case err
    from err(1) tb have "\<not> list_all (readable self) (remdups names)"
      using tagged_buckets_readable [of self "remdups names"] by auto
    with listed tb err rd show ?thesis
      by (simp add: get_bucket_name_def Let_def)
  qed
qed


text \<open>
  The account of the test \<^verbatim>\<open>test_assertion_error_on_multiple_buckets\<close>: two tagged buckets
  in the caller's region. The error is \<open>AssertionError\<close>, not \<open>MultipleBucketsError\<close>.
\<close>

theorem get_bucket_name_multiple_counterexample:
  "2 \<le> length (filter (qualifies (fixture_factory ''eu-west-1''
                    [''state-bucket'', ''another-state-bucket''] (Some ''eu-west-1'')
                    (\<lambda>bucket_name. False)))
            (remdups [''state-bucket'', ''another-state-bucket'']))
   \<and> get_bucket_name fixture_sha1
          (fixture_factory ''eu-west-1'' [''state-bucket'', ''another-state-bucket'']
             (Some ''eu-west-1'') (\<lambda>bucket_name. False))
     = (Inl (AssertionError ''multiple buckets with is-cdflow-tfstate-bucket=true tag found''),
        [ListBuckets, GetBucketTagging ''state-bucket'', GetBucketLocation ''state-bucket'',
         GetBucketTagging ''another-state-bucket'', GetBucketLocation ''another-state-bucket''])
   \<and> fst (get_bucket_name fixture_sha1
          (fixture_factory ''eu-west-1'' [''state-bucket'', ''another-state-bucket'']
             (Some ''eu-west-1'') (\<lambda>bucket_name. False)))
     \<noteq> Inl MultipleBucketsError"
proof -
  let ?self = "fixture_factory ''eu-west-1'' [''state-bucket'', ''another-state-bucket'']
             (Some ''eu-west-1'') (\<lambda>bucket_name. False)"
  have many: "2 \<le> length (filter (qualifies ?self) (remdups [''state-bucket'', ''another-state-bucket'']))"
    by (simp add: qualifies_def dict_of_tags_def s3_fixture_simps)
  have tb: "tagged_buckets ?self [''state-bucket'', ''another-state-bucket'']
      = (Inr [''state-bucket'', ''another-state-bucket''],
         [GetBucketTagging ''state-bucket'', GetBucketLocation ''state-bucket'',
          GetBucketTagging ''another-state-bucket'', GetBucketLocation ''another-state-bucket''])"
    by (simp add: bucket_has_tag_cases bucket_in_current_region_def dict_of_tags_def
          s3_fixture_simps)
  have "s3_list_buckets (boto_s3_client ?self) = Ok [''state-bucket'', ''another-state-bucket'']"
    by (simp add: s3_fixture_simps)
  with tb have "get_bucket_name fixture_sha1 ?self
     = (Inl (AssertionError ''multiple buckets with is-cdflow-tfstate-bucket=true tag found''),
        [ListBuckets, GetBucketTagging ''state-bucket'', GetBucketLocation ''state-bucket'',
         GetBucketTagging ''another-state-bucket'', GetBucketLocation ''another-state-bucket''])"
    by (simp add: get_bucket_name_def Let_def TAG_NAME_def TAG_VALUE_def)
  with many show ?thesis by simp
qed

theorem get_bucket_name_multiple_witness:
  "fst (get_bucket_name fixture_sha1
          (fixture_factory ''eu-west-1'' [''state-bucket'', ''another-state-bucket'']
             (Some ''eu-west-1'') (\<lambda>bucket_name. False)))
     = Inl (AssertionError ''multiple buckets with is-cdflow-tfstate-bucket=true tag found'')
   \<and> filter is_write (snd (get_bucket_name fixture_sha1
          (fixture_factory ''eu-west-1'' [''state-bucket'', ''another-state-bucket'']
             (Some ''eu-west-1'') (\<lambda>bucket_name. False)))) = []"
proof -
  let ?self = "fixture_factory ''eu-west-1'' [''state-bucket'', ''another-state-bucket'']
             (Some ''eu-west-1'') (\<lambda>bucket_name. False)"
  have listed: "s3_list_buckets (boto_s3_client ?self) = Ok [''state-bucket'', ''another-state-bucket'']"
    by (simp add: s3_fixture_simps)
  have many: "2 \<le> length (filter (qualifies ?self) (remdups [''state-bucket'', ''another-state-bucket'']))"
    by (simp add: qualifies_def dict_of_tags_def s3_fixture_simps)
  have reads: "list_all (readable ?self) (remdups [''state-bucket'', ''another-state-bucket''])"
    by (simp add: readable_def dict_of_tags_def s3_fixture_simps)
  from get_bucket_name_multiple [OF listed many, of fixture_sha1] reads
  show ?thesis
    by auto
qed

text \<open>
  C8 fails on the code. The account of the test
  \<^verbatim>\<open>test_existing_bucket_name_returned_when_in_us_standard_region\<close>: the caller's region is
  \<open>us-east-1\<close> and the one bucket carries the sentinel tag and reports the location
  constraint \<open>None\<close>. \<^verbatim>\<open>_bucket_in_current_region\<close> compares \<open>None\<close> with the region, so
  the bucket does not qualify: \<open>get_bucket_name\<close> creates and returns a new bucket.
\<close>

theorem default_location_bucket_not_returned:
  "get_bucket_name fixture_sha1
     (fixture_factory ''us-east-1'' [''dummy-bucket-name''] None (\<lambda>bucket_name. False))
   = (Inr ''cdflow-tfstate-2e0b1f3804e4'',
      [ListBuckets, GetBucketTagging ''dummy-bucket-name'', GetBucketLocation ''dummy-bucket-name'',
       CreateBucket ''cdflow-tfstate-2e0b1f3804e4'' ''us-east-1'',
       PutBucketTagging ''cdflow-tfstate-2e0b1f3804e4'' [(''is-cdflow-tfstate-bucket'', ''true'')]])"
proof -
  let ?self = "fixture_factory ''us-east-1'' [''dummy-bucket-name''] None (\<lambda>bucket_name. False)"
  have tb: "tagged_buckets ?self [''dummy-bucket-name'']
      = (Inr [], [GetBucketTagging ''dummy-bucket-name'', GetBucketLocation ''dummy-bucket-name''])"
    by (simp add: bucket_has_tag_cases bucket_in_current_region_def dict_of_tags_def
          s3_fixture_simps)
  have "list_all (name_taken fixture_sha1 ?self) [0..<0]"
    by simp
  moreover have "s3_create_bucket (boto_s3_client ?self) (generate_bucket_name fixture_sha1 ?self 0)
       (aws_region ?self) = Ok ()"
    by (simp add: s3_fixture_simps)
  ultimately have cb: "create_bucket fixture_sha1 ?self
      = (Inr ''cdflow-tfstate-2e0b1f3804e4'', [CreateBucket ''cdflow-tfstate-2e0b1f3804e4'' ''us-east-1''])"
    using create_bucket_first_free [of 0 fixture_sha1 ?self]
    by (simp add: MAX_CREATION_ATTEMPTS_def fixture_names creation_call_def) (simp add: s3_fixture_simps)
  have tg: "tag_bucket ?self ''cdflow-tfstate-2e0b1f3804e4''
      = (Inr (), [PutBucketTagging ''cdflow-tfstate-2e0b1f3804e4'' [(''is-cdflow-tfstate-bucket'', ''true'')]])"
    by (simp add: tag_bucket_def s3_fixture_simps)
  have "s3_list_buckets (boto_s3_client ?self) = Ok [''dummy-bucket-name'']"
    by (simp add: s3_fixture_simps)
  with tb cb tg show ?thesis
    by (simp add: get_bucket_name_def Let_def)
qed

text \<open>For every region: a bucket whose location constraint is \<open>None\<close> never qualifies.\<close>

lemma default_location_never_qualifies:
  "s3_get_bucket_location (boto_s3_client self) bucket_name = Ok None
     \<Longrightarrow> \<not> qualifies self bucket_name"
  by (simp add: qualifies_def split: response.splits)

section \<open>Properties of account.py\<close>

text \<open>
  The comprehension gives every listed environment the account of its alias, and the
  factory is the account of a non-empty alias under the key \<open>*\<close>.
\<close>

lemma environment_items_lookup:
  assumes "environment_items environments account_of envs = Inr mapping"
  shows "mapping env = (if env \<in> set envs then Option.bind (map_of environments env) account_of else None)
         \<and> (env \<in> set envs \<longrightarrow> mapping env \<noteq> None)"
  using assms
proof (induction envs arbitrary: mapping)
  case Nil
  then show ?case by auto
next
  case (Cons e envs)
  then show ?case
    by (auto split: option.splits sum.splits) metis
qed

lemma get_env_mapping_entries:
  assumes "get_env_mapping environments account_of = Inr mapping"
  shows "entries mapping env = Option.bind (map_of environments env) account_of
         \<and> (\<forall>a. map_of environments env = Some a \<longrightarrow> account_of a \<noteq> None)"
proof -
  from assms obtain items where
    items: "environment_items environments account_of (map fst environments) = Inr items"
    and e: "entries mapping = items"
    by (auto simp add: get_env_mapping_def Let_def split: sum.splits option.splits if_splits)
  have "env \<in> set (map fst environments) \<longleftrightarrow> map_of environments env \<noteq> None"
    by (simp add: map_of_eq_None_iff)
  with environment_items_lookup [OF items, of env] e show ?thesis
    by (cases "map_of environments env") auto
qed

lemma get_env_mapping_default:
  assumes "get_env_mapping environments account_of = Inr mapping"
  shows "default_factory mapping =
           (case map_of environments DEFAULT_ENV_KEY of
              None \<Rightarrow> None
            | Some a \<Rightarrow> if a = [] then None else account_of a)"
  using assms
  by (auto simp add: get_env_mapping_def Let_def split: sum.splits option.splits if_splits)

text \<open>
  C9, as the code has it. For a mapping built by \<^verbatim>\<open>_get_env_mapping\<close>,
  \<open>account_for_environment\<close> returns the account of the alias listed for the
  environment; for an environment that is not listed it returns the account of the
  alias under the key \<open>*\<close> when that key is there with a non-empty alias, and raises
  \<open>KeyError\<close> with the environment when there is no key \<open>*\<close>.
\<close>

theorem account_for_environment_lookup:
  assumes "get_env_mapping environments account_of = Inr mapping"
    and "environment_mapping scheme = mapping"
  shows "(\<forall>a. map_of environments environment = Some a
            \<longrightarrow> (\<exists>account. account_of a = Some account
                   \<and> fst (account_for_environment scheme environment) = Inr account))
       \<and> (\<forall>a. map_of environments environment = None
              \<and> map_of environments DEFAULT_ENV_KEY = Some a \<and> a \<noteq> []
            \<longrightarrow> (\<exists>account. account_of a = Some account
                   \<and> fst (account_for_environment scheme environment) = Inr account))
       \<and> (map_of environments environment = None \<and> map_of environments DEFAULT_ENV_KEY = None
            \<longrightarrow> fst (account_for_environment scheme environment) = Inl (KeyError environment))"
proof -
  note en = get_env_mapping_entries [OF assms(1)]
  note df = get_env_mapping_default [OF assms(1)]
  show ?thesis
  proof (intro conjI allI impI)
    fix a assume a: "map_of environments environment = Some a"
    with en [of environment] obtain account where
      "account_of a = Some account" "entries mapping environment = Some account"
      by auto
    with assms(2) show "\<exists>account. account_of a = Some account
                   \<and> fst (account_for_environment scheme environment) = Inr account"
      by (simp add: account_for_environment_def)
  next
    fix a assume a: "map_of environments environment = None
              \<and> map_of environments DEFAULT_ENV_KEY = Some a \<and> a \<noteq> []"
    with en [of environment] have none: "entries mapping environment = None"
      by simp
    from a en [of DEFAULT_ENV_KEY] obtain account where acc: "account_of a = Some account"
      by auto
    with a df have "default_factory mapping = Some account"
      by simp
    with none acc assms(2) show "\<exists>account. account_of a = Some account
                   \<and> fst (account_for_environment scheme environment) = Inr account"
      by (simp add: account_for_environment_def)
  next
    assume a: "map_of environments environment = None \<and> map_of environments DEFAULT_ENV_KEY = None"
    with en [of environment] df assms(2)
    show "fst (account_for_environment scheme environment) = Inl (KeyError environment)"
      by (simp add: account_for_environment_def)
  qed
qed

text \<open>
  A scheme with the one environment \<open>live\<close> and no key \<open>*\<close>: the lookup of \<open>ci\<close> raises
  \<open>KeyError\<close>, not \<open>UnknownEnvironmentError\<close>.
\<close>

theorem account_for_environment_counterexample:
  "get_env_mapping [(''live'', ''prod'')] fixture_accounts
     = Inr \<lparr>default_factory = None, entries = [''live'' \<mapsto> fixture_prod]\<rparr>
   \<and> map_of [(''live'', ''prod'')] DEFAULT_ENV_KEY = None
   \<and> fst (account_for_environment
          (fixture_scheme \<lparr>default_factory = None, entries = [''live'' \<mapsto> fixture_prod]\<rparr>) ''ci'')
       = Inl (KeyError ''ci'')
   \<and> fst (account_for_environment
          (fixture_scheme \<lparr>default_factory = None, entries = [''live'' \<mapsto> fixture_prod]\<rparr>) ''ci'')
       \<noteq> Inl UnknownEnvironmentError"
  by (auto simp add: get_env_mapping_def fixture_accounts_def fixture_prod_def
        DEFAULT_ENV_KEY_def Let_def account_for_environment_def fixture_scheme_def)

theorem account_for_environment_lookup_witness:
  "fst (account_for_environment
          (fixture_scheme \<lparr>default_factory = Some fixture_dev,
                           entries = [''live'' \<mapsto> fixture_prod, ''*'' \<mapsto> fixture_dev]\<rparr>) ''live'')
     = Inr fixture_prod
   \<and> fst (account_for_environment
          (fixture_scheme \<lparr>default_factory = Some fixture_dev,
                           entries = [''live'' \<mapsto> fixture_prod, ''*'' \<mapsto> fixture_dev]\<rparr>) ''ci'')
     = Inr fixture_dev
   \<and> fst (account_for_environment
          (fixture_scheme \<lparr>default_factory = None, entries = [''live'' \<mapsto> fixture_prod]\<rparr>) ''ci'')
     = Inl (KeyError ''ci'')"
proof -
  let ?with_default = "\<lparr>default_factory = Some fixture_dev,
                         entries = [''live'' \<mapsto> fixture_prod, ''*'' \<mapsto> fixture_dev]\<rparr>"
  let ?without = "\<lparr>default_factory = None, entries = [''live'' \<mapsto> fixture_prod]\<rparr>"
  have m1: "get_env_mapping [(''live'', ''prod''), (''*'', ''dev'')] fixture_accounts
              = Inr ?with_default"
    by (auto simp add: get_env_mapping_def fixture_accounts_def fixture_dev_def fixture_prod_def
          DEFAULT_ENV_KEY_def Let_def)
  have m2: "get_env_mapping [(''live'', ''prod'')] fixture_accounts = Inr ?without"
    by (auto simp add: get_env_mapping_def fixture_accounts_def fixture_prod_def
          DEFAULT_ENV_KEY_def Let_def)
  have s: "environment_mapping (fixture_scheme mapping) = mapping" for mapping
    by (simp add: fixture_scheme_def)
  from account_for_environment_lookup [OF m1 s, of "''live''"]
  have 1: "fst (account_for_environment (fixture_scheme ?with_default) ''live'') = Inr fixture_prod"
    by (simp add: fixture_accounts_def fixture_prod_def)
  from account_for_environment_lookup [OF m1 s, of "''ci''"]
  have 2: "fst (account_for_environment (fixture_scheme ?with_default) ''ci'') = Inr fixture_dev"
    by (simp add: fixture_accounts_def fixture_dev_def DEFAULT_ENV_KEY_def)
  from account_for_environment_lookup [OF m2 s, of "''ci''"]
  have 3: "fst (account_for_environment (fixture_scheme ?without) ''ci'') = Inl (KeyError ''ci'')"
    by (simp add: DEFAULT_ENV_KEY_def)
  from 1 2 3 show ?thesis by simp
qed

section \<open>Properties of the state migration\<close>

text \<open>
  The keys of two environments differ, and no state key is a marker key, so the step of
  one environment leaves the keys of every other environment alone.
\<close>

lemma marker_key_inj [simp]:
  "marker_key team component e = marker_key team component e' \<longleftrightarrow> e = e'"
  by (simp add: marker_key_def)

lemma state_key_inj [simp]:
  "state_key team component e = state_key team component e' \<longleftrightarrow> e = e'"
  by (simp add: state_key_def)

lemma state_key_not_marker_key [simp]:
  "state_key team component e \<noteq> marker_key team component e'"
  "marker_key team component e' \<noteq> state_key team component e"
proof -
  have "last (e @ ''/terraform.tfstate'') \<noteq> last (e' @ ''/MIGRATED'')"
    by simp
  then have "e @ ''/terraform.tfstate'' \<noteq> e' @ ''/MIGRATED''"
    by metis
  then show "state_key team component e \<noteq> marker_key team component e'"
    by (simp add: state_key_def marker_key_def)
  then show "marker_key team component e' \<noteq> state_key team component e"
    by metis
qed

text \<open>What one environment's step does to the keys of another environment.\<close>

lemma migrate_environment_other:
  assumes "e' \<noteq> e"
  shows "objects (migrate_environment ob nb team component store e') (nb, marker_key team component e)
           = objects store (nb, marker_key team component e)"
    and "objects (migrate_environment ob nb team component store e') (nb, state_key team component e)
           = objects store (nb, state_key team component e)"
    and "\<exists>added. puts (migrate_environment ob nb team component store e') = puts store @ added
           \<and> (nb, marker_key team component e) \<notin> set added
           \<and> (nb, state_key team component e) \<notin> set added"
  using assms
  by (auto simp add: migrate_environment_def put_object_def split: option.splits)

lemma migrate_environment_marked:
  assumes "objects store (nb, marker_key team component e) \<noteq> None"
  shows "migrate_environment ob nb team component store e = store"
  using assms by (simp add: migrate_environment_def)

lemma migrate_state_marked:
  assumes "objects store (nb, marker_key team component e) \<noteq> None"
  shows "objects (migrate_state ob nb team component envs store) (nb, marker_key team component e)
           = objects store (nb, marker_key team component e)
       \<and> objects (migrate_state ob nb team component envs store) (nb, state_key team component e)
           = objects store (nb, state_key team component e)
       \<and> (\<exists>added. puts (migrate_state ob nb team component envs store) = puts store @ added
           \<and> (nb, marker_key team component e) \<notin> set added
           \<and> (nb, state_key team component e) \<notin> set added)"
  using assms
proof (induction envs arbitrary: store)
  case Nil
  then show ?case by simp
next
  case (Cons e' envs)
  let ?s = "migrate_environment ob nb team component store e'"
  have step: "objects ?s (nb, marker_key team component e) = objects store (nb, marker_key team component e)
       \<and> objects ?s (nb, state_key team component e) = objects store (nb, state_key team component e)
       \<and> (\<exists>added. puts ?s = puts store @ added
           \<and> (nb, marker_key team component e) \<notin> set added
           \<and> (nb, state_key team component e) \<notin> set added)"
  proof (cases "e' = e")
    case True
    with Cons.prems show ?thesis by (simp add: migrate_environment_marked)
  next
    case False
    with migrate_environment_other [OF False, of ob nb team component store] show ?thesis
      by simp
  qed
  then obtain added1 where a1: "puts ?s = puts store @ added1"
      "(nb, marker_key team component e) \<notin> set added1"
      "(nb, state_key team component e) \<notin> set added1"
    by blast
  from step Cons.prems have "objects ?s (nb, marker_key team component e) \<noteq> None"
    by simp
  from Cons.IH [OF this] obtain added2 where
      ih: "objects (migrate_state ob nb team component envs ?s) (nb, marker_key team component e)
           = objects ?s (nb, marker_key team component e)"
          "objects (migrate_state ob nb team component envs ?s) (nb, state_key team component e)
           = objects ?s (nb, state_key team component e)"
          "puts (migrate_state ob nb team component envs ?s) = puts ?s @ added2"
          "(nb, marker_key team component e) \<notin> set added2"
          "(nb, state_key team component e) \<notin> set added2"
    by blast
  from step ih a1 show ?case
    by (intro conjI exI [of _ "added1 @ added2"]) simp_all
qed

lemma migrate_environment_clock [simp]:
  "clock (migrate_environment ob nb team component store e) = clock store"
  by (simp add: migrate_environment_def put_object_def split: option.splits)

lemma migrate_environment_keeps:
  "objects store x \<noteq> None \<Longrightarrow> objects (migrate_environment ob nb team component store e) x \<noteq> None"
  by (simp add: migrate_environment_def put_object_def split: option.splits)

lemma migrate_environment_other_bucket:
  "b \<noteq> nb \<Longrightarrow>
   objects (migrate_environment ob nb team component store e) (b, key) = objects store (b, key)"
  by (simp add: migrate_environment_def put_object_def split: option.splits)

lemma migrate_environment_copies:
  assumes "objects store (nb, marker_key team component e) = None"
    and "objects store (ob, legacy_key e component) = Some legacy"
  shows "objects (migrate_environment ob nb team component store e) (nb, marker_key team component e)
           = Some \<lparr>body = ''1'', last_modified = clock store\<rparr>"
    and "objects (migrate_environment ob nb team component store e) (nb, state_key team component e)
           = Some \<lparr>body = body legacy, last_modified = clock store\<rparr>"
    and "puts (migrate_environment ob nb team component store e)
           = puts store @ [(nb, state_key team component e), (nb, marker_key team component e)]"
  using assms by (simp_all add: migrate_environment_def put_object_def)

text \<open>
  The first run over a listed environment that has its legacy object and no marker:
  the state is copied and the marker written, each exactly once.
\<close>

lemma migrate_state_creates:
  assumes "e \<in> set envs"
    and "objects store (nb, marker_key team component e) = None"
    and "objects store (ob, legacy_key e component) \<noteq> None"
  shows "objects (migrate_state ob nb team component envs store) (nb, marker_key team component e)
           = Some \<lparr>body = ''1'', last_modified = clock store\<rparr>
       \<and> (\<exists>content. objects (migrate_state ob nb team component envs store)
                        (nb, state_key team component e)
                      = Some \<lparr>body = content, last_modified = clock store\<rparr>
             \<and> (ob \<noteq> nb \<longrightarrow>
                  Some content = map_option body (objects store (ob, legacy_key e component))))
       \<and> (\<exists>added. puts (migrate_state ob nb team component envs store) = puts store @ added
             \<and> count_list added (nb, marker_key team component e) = 1
             \<and> count_list added (nb, state_key team component e) = 1)"
  using assms
proof (induction envs arbitrary: store)
  case Nil
  then show ?case by simp
next
  case (Cons e' envs)
  let ?m = "(nb, marker_key team component e)"
  let ?k = "(nb, state_key team component e)"
  let ?s = "migrate_environment ob nb team component store e'"
  let ?final = "migrate_state ob nb team component envs ?s"
  show ?case
  proof (cases "e' = e")
    case True
    from Cons.prems(3) obtain legacy where
      legacy: "objects store (ob, legacy_key e component) = Some legacy"
      by auto
    note copy = migrate_environment_copies [OF Cons.prems(2) legacy]
    from copy(1) have "objects ?s ?m \<noteq> None"
      using True by simp
    from migrate_state_marked [OF this, of ob envs] obtain added where
      rest: "objects ?final ?m = objects ?s ?m" "objects ?final ?k = objects ?s ?k"
        "puts ?final = puts ?s @ added" "?m \<notin> set added" "?k \<notin> set added"
      by blast
    from rest(4,5) have zero: "count_list added ?m = 0" "count_list added ?k = 0"
      by (simp_all add: count_list_0_iff)
    have "puts ?final = puts store @ ([?k, ?m] @ added)"
      using rest(3) copy(3) True by simp
    moreover have "count_list ([?k, ?m] @ added) ?m = 1" "count_list ([?k, ?m] @ added) ?k = 1"
      using zero by simp_all
    ultimately have "\<exists>added. puts ?final = puts store @ added
             \<and> count_list added ?m = 1 \<and> count_list added ?k = 1"
      by blast
    with rest(1,2) copy(1,2) legacy True show ?thesis
      by simp
  next
    case False
    with Cons.prems(1) have listed: "e \<in> set envs" by simp
    from migrate_environment_other [OF False, of ob nb team component store]
    obtain added1 where
      step: "objects ?s ?m = objects store ?m" "objects ?s ?k = objects store ?k"
        "puts ?s = puts store @ added1" "?m \<notin> set added1" "?k \<notin> set added1"
      by blast
    from step(4,5) have zero: "count_list added1 ?m = 0" "count_list added1 ?k = 0"
      by (simp_all add: count_list_0_iff)
    from step(1) Cons.prems(2) have nomark: "objects ?s ?m = None"
      by simp
    from Cons.prems(3) have legacy: "objects ?s (ob, legacy_key e component) \<noteq> None"
      by (rule migrate_environment_keeps)
    from Cons.IH [OF listed nomark legacy] obtain content added2 where
      ih: "objects ?final ?m = Some \<lparr>body = ''1'', last_modified = clock ?s\<rparr>"
        "objects ?final ?k = Some \<lparr>body = content, last_modified = clock ?s\<rparr>"
        "ob \<noteq> nb \<longrightarrow> Some content = map_option body (objects ?s (ob, legacy_key e component))"
        "puts ?final = puts ?s @ added2"
        "count_list added2 ?m = 1" "count_list added2 ?k = 1"
      by blast
    have "puts ?final = puts store @ (added1 @ added2)"
      using ih(4) step(3) by simp
    moreover have "count_list (added1 @ added2) ?m = 1" "count_list (added1 @ added2) ?k = 1"
      using zero ih(5,6) by simp_all
    ultimately have "\<exists>added. puts ?final = puts store @ added
             \<and> count_list added ?m = 1 \<and> count_list added ?k = 1"
      by blast
    moreover have "ob \<noteq> nb \<longrightarrow>
        Some content = map_option body (objects store (ob, legacy_key e component))"
      using ih(3) by (simp add: migrate_environment_other_bucket)
    ultimately show ?thesis
      using ih(1,2) by simp
  qed
qed

text \<open>A run from a store in which the marker is: nothing of the environment is written.\<close>

lemma migrate_state_marked_counts:
  assumes "objects store (nb, marker_key team component e) \<noteq> None"
  shows "objects (migrate_state ob nb team component envs store) (nb, marker_key team component e)
           = objects store (nb, marker_key team component e)
       \<and> objects (migrate_state ob nb team component envs store) (nb, state_key team component e)
           = objects store (nb, state_key team component e)
       \<and> (\<exists>added. puts (migrate_state ob nb team component envs store) = puts store @ added
             \<and> count_list added (nb, marker_key team component e) = 0
             \<and> count_list added (nb, state_key team component e) = 0)"
  using migrate_state_marked [OF assms, of ob envs]
  by (auto simp add: count_list_0_iff)

text \<open>
  C3, as the model has it. Let a first run of \<open>migrate_state\<close> lead from \<open>store0\<close> to
  \<open>store1\<close> and a second run, at any later time, from \<open>store1\<close> to \<open>store2\<close>. For every
  environment whose marker is in \<open>store1\<close>, the second run leaves the destination state
  object as it is (its body and its last-modified time), leaves the marker as it is,
  and writes neither key. For a listed environment that has its legacy object and no
  marker in \<open>store0\<close>, the first run writes the marker with content \<open>1\<close> and the copy of
  the state (with the bytes of the legacy object when the two buckets differ), and over
  both runs the marker and the copy are written exactly once each. For an environment
  whose marker is in \<open>store0\<close> already, neither run writes the marker or the copy.
\<close>

theorem migrate_state_twice:
  assumes first: "store1 = migrate_state ob nb team component environments store0"
    and second: "store2 = migrate_state ob nb team component environments (store1\<lparr>clock := later\<rparr>)"
  shows "(objects store1 (nb, marker_key team component environment) \<noteq> None
          \<longrightarrow> objects store2 (nb, state_key team component environment)
                = objects store1 (nb, state_key team component environment)
              \<and> objects store2 (nb, marker_key team component environment)
                = objects store1 (nb, marker_key team component environment)
              \<and> count_list (drop (length (puts store1)) (puts store2))
                   (nb, state_key team component environment) = 0
              \<and> count_list (drop (length (puts store1)) (puts store2))
                   (nb, marker_key team component environment) = 0)
       \<and> (environment \<in> set environments
            \<and> objects store0 (nb, marker_key team component environment) = None
            \<and> objects store0 (ob, legacy_key environment component) \<noteq> None
          \<longrightarrow> objects store1 (nb, marker_key team component environment)
                = Some \<lparr>body = ''1'', last_modified = clock store0\<rparr>
              \<and> (\<exists>content. objects store1 (nb, state_key team component environment)
                              = Some \<lparr>body = content, last_modified = clock store0\<rparr>
                    \<and> (ob \<noteq> nb \<longrightarrow>
                         Some content
                           = map_option body (objects store0 (ob, legacy_key environment component))))
              \<and> count_list (drop (length (puts store0)) (puts store2))
                   (nb, marker_key team component environment) = 1
              \<and> count_list (drop (length (puts store0)) (puts store2))
                   (nb, state_key team component environment) = 1)
       \<and> (objects store0 (nb, marker_key team component environment) \<noteq> None
          \<longrightarrow> objects store2 (nb, marker_key team component environment)
                = objects store0 (nb, marker_key team component environment)
              \<and> objects store2 (nb, state_key team component environment)
                = objects store0 (nb, state_key team component environment)
              \<and> count_list (drop (length (puts store0)) (puts store2))
                   (nb, marker_key team component environment) = 0
              \<and> count_list (drop (length (puts store0)) (puts store2))
                   (nb, state_key team component environment) = 0)"
proof -
  let ?m = "(nb, marker_key team component environment)"
  let ?k = "(nb, state_key team component environment)"
  let ?later = "store1\<lparr>clock := later\<rparr>"
  have run2: "objects store2 ?m = objects store1 ?m \<and> objects store2 ?k = objects store1 ?k
      \<and> (\<exists>added. puts store2 = puts store1 @ added
            \<and> count_list added ?m = 0 \<and> count_list added ?k = 0)"
    if "objects store1 ?m \<noteq> None"
  proof -
    from that have "objects ?later ?m \<noteq> None" by simp
    from migrate_state_marked_counts [OF this, of ob environments] second
    show ?thesis by simp
  qed
  show ?thesis
  proof (intro conjI impI)
    assume marked: "objects store1 ?m \<noteq> None"
    from run2 [OF marked] obtain added where
      r: "objects store2 ?m = objects store1 ?m" "objects store2 ?k = objects store1 ?k"
         "puts store2 = puts store1 @ added" "count_list added ?m = 0" "count_list added ?k = 0"
      by blast
    from r(2) show "objects store2 ?k = objects store1 ?k" .
    from r(1) show "objects store2 ?m = objects store1 ?m" .
    from r(3,5) show "count_list (drop (length (puts store1)) (puts store2)) ?k = 0" by simp
    from r(3,4) show "count_list (drop (length (puts store1)) (puts store2)) ?m = 0" by simp
  next
    assume a: "environment \<in> set environments \<and> objects store0 ?m = None
        \<and> objects store0 (ob, legacy_key environment component) \<noteq> None"
    then have listed: "environment \<in> set environments" and fresh: "objects store0 ?m = None"
      and legacy: "objects store0 (ob, legacy_key environment component) \<noteq> None"
      by simp_all
    from migrate_state_creates [OF listed fresh legacy] first
    obtain content added1 where
      c: "objects store1 ?m = Some \<lparr>body = ''1'', last_modified = clock store0\<rparr>"
         "objects store1 ?k = Some \<lparr>body = content, last_modified = clock store0\<rparr>"
         "ob \<noteq> nb \<longrightarrow> Some content
            = map_option body (objects store0 (ob, legacy_key environment component))"
         "puts store1 = puts store0 @ added1"
         "count_list added1 ?m = 1" "count_list added1 ?k = 1"
      by auto
    from c(1) have "objects store1 ?m \<noteq> None" by simp
    from run2 [OF this] obtain added2 where
      r: "puts store2 = puts store1 @ added2" "count_list added2 ?m = 0" "count_list added2 ?k = 0"
      by blast
    from c(1) show "objects store1 ?m = Some \<lparr>body = ''1'', last_modified = clock store0\<rparr>" .
    from c(2,3) show "\<exists>content. objects store1 ?k
                              = Some \<lparr>body = content, last_modified = clock store0\<rparr>
                    \<and> (ob \<noteq> nb \<longrightarrow>
                         Some content
                           = map_option body (objects store0 (ob, legacy_key environment component)))"
      by blast
    from c(4,5) r(1,2) show "count_list (drop (length (puts store0)) (puts store2)) ?m = 1"
      by simp
    from c(4,6) r(1,3) show "count_list (drop (length (puts store0)) (puts store2)) ?k = 1"
      by simp
  next
    assume pre: "objects store0 ?m \<noteq> None"
    from migrate_state_marked_counts [OF pre, of ob environments] first
    obtain added1 where
      f: "objects store1 ?m = objects store0 ?m" "objects store1 ?k = objects store0 ?k"
         "puts store1 = puts store0 @ added1" "count_list added1 ?m = 0" "count_list added1 ?k = 0"
      by auto
    from f(1) pre have "objects store1 ?m \<noteq> None" by simp
    from run2 [OF this] obtain added2 where
      r: "objects store2 ?m = objects store1 ?m" "objects store2 ?k = objects store1 ?k"
         "puts store2 = puts store1 @ added2" "count_list added2 ?m = 0" "count_list added2 ?k = 0"
      by blast
    from f(1) r(1) show "objects store2 ?m = objects store0 ?m" by simp
    from f(2) r(2) show "objects store2 ?k = objects store0 ?k" by simp
    from f(3,4) r(3,4) show "count_list (drop (length (puts store0)) (puts store2)) ?m = 0"
      by simp
    from f(3,5) r(3,5) show "count_list (drop (length (puts store0)) (puts store2)) ?k = 0"
      by simp
  qed
qed

text \<open>
  The store of the test \<^verbatim>\<open>test_does_not_migrate_state_if_already_migrated\<close>: the marker of
  \<open>qa\<close> is at the destination before the first run. It is there at the second run, and
  over both runs it is written not once but never.
\<close>

lemmas migrate_fixture_simps =
  fixture_migrate_def fixture_store_def fixture_premarked_def migrate_environment_def
  put_object_def legacy_key_def state_key_def marker_key_def

theorem migrate_state_premarked_counterexample:
  "objects fixture_premarked (''backend-s3-bucket'', marker_key ''team'' ''svc'' ''qa'') \<noteq> None
   \<and> objects (fixture_migrate fixture_premarked)
        (''backend-s3-bucket'', marker_key ''team'' ''svc'' ''qa'') \<noteq> None
   \<and> puts fixture_premarked = []
   \<and> count_list (puts (fixture_migrate (fixture_migrate fixture_premarked\<lparr>clock := 9\<rparr>)))
        (''backend-s3-bucket'', marker_key ''team'' ''svc'' ''qa'') = 0
   \<and> count_list (puts (fixture_migrate (fixture_migrate fixture_premarked\<lparr>clock := 9\<rparr>)))
        (''backend-s3-bucket'', marker_key ''team'' ''svc'' ''qa'') \<noteq> 1"
  by (simp add: migrate_fixture_simps)

theorem migrate_state_twice_witness:
  "objects (fixture_migrate fixture_store) (''backend-s3-bucket'', ''team/svc/qa/MIGRATED'')
     = Some \<lparr>body = ''1'', last_modified = 5\<rparr>
   \<and> objects (fixture_migrate (fixture_migrate fixture_store\<lparr>clock := 9\<rparr>))
       (''backend-s3-bucket'', ''team/svc/qa/terraform.tfstate'')
     = Some \<lparr>body = ''qa state'', last_modified = 5\<rparr>
   \<and> count_list (puts (fixture_migrate (fixture_migrate fixture_store\<lparr>clock := 9\<rparr>)))
       (''backend-s3-bucket'', ''team/svc/qa/MIGRATED'') = 1
   \<and> count_list (puts (fixture_migrate (fixture_migrate fixture_store\<lparr>clock := 9\<rparr>)))
       (''backend-s3-bucket'', ''team/svc/qa/terraform.tfstate'') = 1
   \<and> count_list (drop (length (puts (fixture_migrate fixture_store)))
                  (puts (fixture_migrate (fixture_migrate fixture_store\<lparr>clock := 9\<rparr>))))
       (''backend-s3-bucket'', ''team/svc/qa/terraform.tfstate'') = 0
   \<and> objects (fixture_migrate (fixture_migrate fixture_premarked\<lparr>clock := 9\<rparr>))
       (''backend-s3-bucket'', ''team/svc/qa/terraform.tfstate'')
     = Some \<lparr>body = ''qa state'', last_modified = 1\<rparr>
   \<and> count_list (puts (fixture_migrate (fixture_migrate fixture_premarked\<lparr>clock := 9\<rparr>)))
       (''backend-s3-bucket'', ''team/svc/qa/MIGRATED'') = 0"
proof -
  let ?ob = "''cdflow-tfstate''" and ?nb = "''backend-s3-bucket''"
  let ?m = "(?nb, marker_key ''team'' ''svc'' ''qa'')"
  let ?k = "(?nb, state_key ''team'' ''svc'' ''qa'')"
  let ?s1 = "fixture_migrate fixture_store"
  let ?s2 = "fixture_migrate (?s1\<lparr>clock := 9\<rparr>)"
  let ?p1 = "fixture_migrate fixture_premarked"
  let ?p2 = "fixture_migrate (?p1\<lparr>clock := 9\<rparr>)"
  have keys: "marker_key ''team'' ''svc'' ''qa'' = ''team/svc/qa/MIGRATED''"
    "state_key ''team'' ''svc'' ''qa'' = ''team/svc/qa/terraform.tfstate''"
    "legacy_key ''qa'' ''svc'' = ''qa/svc/terraform.tfstate''"
    by (simp_all add: marker_key_def state_key_def legacy_key_def)
  have start: "puts fixture_store = []" "clock fixture_store = 5"
    "objects fixture_store ?m = None"
    "objects fixture_store (?ob, legacy_key ''qa'' ''svc'')
       = Some \<lparr>body = ''qa state'', last_modified = 1\<rparr>"
    by (simp_all add: fixture_store_def keys)
  have pre: "puts fixture_premarked = []"
    "objects fixture_premarked ?m = Some \<lparr>body = ''1'', last_modified = 1\<rparr>"
    "objects fixture_premarked ?k = Some \<lparr>body = ''qa state'', last_modified = 1\<rparr>"
    by (simp_all add: fixture_premarked_def keys)
  note run = migrate_state_twice
    [of ?s1 ?ob ?nb "''team''" "''svc''" "[''ci'', ''qa'']" fixture_store ?s2 9 "''qa''",
     unfolded fixture_migrate_def [symmetric], OF refl refl]
  note prerun = migrate_state_twice
    [of ?p1 ?ob ?nb "''team''" "''svc''" "[''ci'', ''qa'']" fixture_premarked ?p2 9 "''qa''",
     unfolded fixture_migrate_def [symmetric], OF refl refl]
  from run [THEN conjunct2, THEN conjunct1] start
  have created: "objects ?s1 ?m = Some \<lparr>body = ''1'', last_modified = 5\<rparr>"
    and copied: "objects ?s1 ?k = Some \<lparr>body = ''qa state'', last_modified = 5\<rparr>"
    and once: "count_list (puts ?s2) ?m = 1" "count_list (puts ?s2) ?k = 1"
    by auto
  from run [THEN conjunct1] created copied
  have kept: "objects ?s2 ?k = Some \<lparr>body = ''qa state'', last_modified = 5\<rparr>"
    and nocopy: "count_list (drop (length (puts ?s1)) (puts ?s2)) ?k = 0"
    by simp_all
  from prerun [THEN conjunct2, THEN conjunct2] pre
  have never: "objects ?p2 ?k = Some \<lparr>body = ''qa state'', last_modified = 1\<rparr>"
    "count_list (puts ?p2) ?m = 0"
    by simp_all
  from created kept once nocopy never show ?thesis
    by (simp add: keys)
qed

end
